theory Spec2Isabelle
  imports Complex_Main
begin

section \<open>The document tree read by ship.c\<close>

text \<open>
  ship.c walks a libxml2 tree through the macros of nxml.h. A node carries its kind,
  its name, its attributes, its text content and its children; the \<open>next\<close> pointers of
  the children are the order of the list. A \<^verbatim>\<open>NULL\<close> pointer to a child list is the
  empty list, a \<^verbatim>\<open>NULL\<close> string is \<open>None\<close>.
\<close>

datatype xmlNode =
  XmlNode (ntype: nat) (nname: string) (nprops: "(string \<times> string) list")
    (ncontent: "string option") (nchildren: "xmlNode list")

text \<open>
  Modelled from the spec: nxml.h, the macros through which ship.c reads the tree, is not
  among the sources. The spec has the parser read an attribute by name (absent or
  present, whatever its text), the text content of a node (which may be missing) and the
  child elements by name. The macros below do that, the way ship.c uses them and the
  comments it puts beside them say ("Only handle nodes", "All the xmlr_ stuff have
  continue cases"): \<open>XML_NODE_START\<close> is libxml2's element kind and \<open>XML_NODE_TEXT\<close>
  its text kind, \<open>xml_isNode\<close> tests kind and name, \<open>xmlr_attr\<close> is \<open>xmlGetProp\<close>,
  \<open>xml_get\<close> is the content of the first child, or \<^verbatim>\<open>NULL\<close> when there is none.
\<close>

definition XML_NODE_START :: nat where
  "XML_NODE_START = 1"

definition XML_NODE_TEXT :: nat where
  "XML_NODE_TEXT = 3"

definition xml_isNode :: "xmlNode \<Rightarrow> string \<Rightarrow> bool" where
  "xml_isNode n s = (ntype n = XML_NODE_START \<and> nname n = s)"

definition xmlr_attr :: "xmlNode \<Rightarrow> string \<Rightarrow> string option" where
  "xmlr_attr n s = map_of (nprops n) s"

definition xml_get :: "xmlNode \<Rightarrow> string option" where
  "xml_get n = (case nchildren n of [] \<Rightarrow> None | c # _ \<Rightarrow> ncontent c)"

section \<open>Ships, slots and the collaborators of the parser\<close>

text \<open>
  Modelled from the spec: the enumerations and structures of ship.h and outfit.h are
  not among the sources. The spec lists the ship classes with a null sentinel, the slot
  sizes light, medium and heavy, the slot types structure, utility and weapon, and the
  fields of a slot and of a ship; the members and fields below are the ones ship.c
  names. The first member of an enumeration is the one a zeroed structure holds. The
  numeric value of a ship class is only compared, in \<open>ship_compareTech\<close>, and is a
  parameter there.
\<close>

datatype ShipClass =
    SHIP_CLASS_NULL
  | SHIP_CLASS_YACHT
  | SHIP_CLASS_LUXURY_YACHT
  | SHIP_CLASS_CRUISE_SHIP
  | SHIP_CLASS_COURIER
  | SHIP_CLASS_ARMOURED_TRANSPORT
  | SHIP_CLASS_FREIGHTER
  | SHIP_CLASS_BULK_CARRIER
  | SHIP_CLASS_SCOUT
  | SHIP_CLASS_FIGHTER
  | SHIP_CLASS_BOMBER
  | SHIP_CLASS_CORVETTE
  | SHIP_CLASS_DESTROYER
  | SHIP_CLASS_CRUISER
  | SHIP_CLASS_CARRIER
  | SHIP_CLASS_DRONE
  | SHIP_CLASS_HEAVY_DRONE
  | SHIP_CLASS_MOTHERSHIP

datatype OutfitSlotType =
    OUTFIT_SLOT_NULL
  | OUTFIT_SLOT_NA
  | OUTFIT_SLOT_STRUCTURE
  | OUTFIT_SLOT_UTILITY
  | OUTFIT_SLOT_WEAPON

datatype OutfitSlotSize =
    OUTFIT_SLOT_SIZE_NA
  | OUTFIT_SLOT_SIZE_LIGHT
  | OUTFIT_SLOT_SIZE_MEDIUM
  | OUTFIT_SLOT_SIZE_HEAVY

text \<open>
  Values of type \<^verbatim>\<open>double\<close> are modelled by real numbers. The properties below rest
  on assignments, on comparisons with a constant and on which field a product is
  stored in, not on rounding. \<open>M_SQRT2\<close> and \<open>M_PI\<close> are the decimal constants of the
  C library's math.h.
\<close>

definition M_SQRT2 :: real where
  "M_SQRT2 = 1.41421356237309504880"

definition M_PI :: real where
  "M_PI = 3.14159265358979323846"

text \<open>
  An outfit and a texture are pointers into other modules, here numbers. \<open>credits_t\<close>
  is the signed integer type of prices (the spec: an integer currency unit); prices are
  only read from the file, copied and compared, so the model does not bound them.
\<close>

type_synonym Outfit = nat
type_synonym glTexture = nat
type_synonym credits_t = int

record OutfitSlot =
  property :: "string option"
  exclusive :: int
  stype :: OutfitSlotType
  size' :: OutfitSlotSize

record ShipMount =
  mount_x :: real
  mount_y :: real
  mount_h :: real

record ShipOutfitSlot =
  slot :: OutfitSlot
  required :: int
  data :: "Outfit option"
  mount :: ShipMount

text \<open>The cell that \<^verbatim>\<open>calloc\<close> hands out: every field zero.\<close>

definition zero_slot :: ShipOutfitSlot where
  "zero_slot =
     \<lparr> slot = \<lparr> property = None, exclusive = 0, stype = OUTFIT_SLOT_NULL,
                 size' = OUTFIT_SLOT_SIZE_NA \<rparr>,
       required = 0, data = None,
       mount = \<lparr> mount_x = 0, mount_y = 0, mount_h = 0 \<rparr> \<rparr>"

text \<open>
  What the program writes with \<^verbatim>\<open>WARN\<close>, \<^verbatim>\<open>DEBUG\<close> and \<^verbatim>\<open>ERR\<close>, and the
  calls it makes to the ship-statistics module, in the order they happen. A message
  keeps the arguments of its format string; the ship's name may be \<^verbatim>\<open>NULL\<close>.
\<close>

datatype 'st event =
    WARN_no_name
  | WARN_gfx_null "string option"
  | WARN_gfx "string option" string
  | WARN_unknown_movement "string option" string
  | WARN_unknown_health "string option" string
  | WARN_unknown_characteristic "string option" string
  | WARN_unknown_slot "string option" string
  | WARN_unknown_stat "string option" string
  | WARN_missing_element "string option" string
  | WARN_missing_mount "string option" string
  | WARN_both_prop "string option"
  | WARN_default_outfit "string option" string
  | WARN_negative_price
  | DEBUG_unknown_node "string option" string
  | DEBUG_loaded nat
  | ERR_missing_root
  | ERR_no_elements
  | CALL_ss_check
  | CALL_ss_statsInit
  | CALL_ss_statsModFromList "'st list"
  | CALL_ss_statsListDesc "'st list" nat

text \<open>
  The graphics fields of a ship, which only \<open>ship_loadGFX\<close> writes.
\<close>

record ShipGFX =
  g_space :: "glTexture option"
  g_engine :: "glTexture option"
  g_target :: "glTexture option"
  g_store :: "glTexture option"
  g_comm :: "string option"
  g_mangle :: real

text \<open>
  The functions of other modules and of the C library that the parser calls. A ship
  statistic is a value of type \<open>'st\<close>, the compiled array one of type \<open>'sa\<close>.
  \<open>ship_loadGFX\<close> reads image files through SDL and OpenGL and assigns nothing but the
  graphics fields; what it leaves in them and what it warns about is \<open>loadGFX\<close>.
\<close>

record ('st, 'sa) env =
  outfit_toSlotSize :: "string \<Rightarrow> OutfitSlotSize"
  outfit_get :: "string \<Rightarrow> Outfit option"
  sound_get :: "string option \<Rightarrow> int"
  atof :: "string \<Rightarrow> real"
  atoi :: "string \<Rightarrow> int"
  atol :: "string \<Rightarrow> int"
  loadGFX :: "ShipGFX \<Rightarrow> string option \<Rightarrow> string \<Rightarrow> int \<Rightarrow> int \<Rightarrow> ShipGFX \<times> string list"
  ss_statsInit :: "'sa"
  ss_statsModFromList :: "'sa \<Rightarrow> 'st list \<Rightarrow> 'sa"
  ss_listFromXML :: "xmlNode \<Rightarrow> 'st option"
  ss_statsListDesc :: "'st list \<Rightarrow> nat \<Rightarrow> int \<times> string"

record ('st, 'sa) Ship =
  name :: "string option"
  base_type :: "string option"
  class' :: ShipClass
  price :: credits_t
  license :: "string option"
  fabricator :: "string option"
  description :: "string option"
  thrust :: real
  turn :: real
  speed :: real
  gfx_space :: "glTexture option"
  gfx_engine :: "glTexture option"
  gfx_target :: "glTexture option"
  gfx_store :: "glTexture option"
  gfx_comm :: "string option"
  gui :: "string option"
  sound :: int
  crew :: int
  mass :: real
  cpu :: real
  fuel :: int
  cap_cargo :: real
  armour :: real
  armour_regen :: real
  shield :: real
  shield_regen :: real
  energy :: real
  energy_regen :: real
  dmg_absorb :: real
  outfit_structure :: "ShipOutfitSlot list"
  outfit_nstructure :: int
  outfit_utility :: "ShipOutfitSlot list"
  outfit_nutility :: int
  outfit_weapon :: "ShipOutfitSlot list"
  outfit_nweapon :: int
  mangle :: real
  stats :: "'st list"
  stats_array :: "'sa"
  desc_stats :: "string option"

section \<open>Small functions of the catalog\<close>

text \<open>
  \<^verbatim>\<open>strcmp\<close> compares the bytes of two strings as unsigned values up to the first
  difference or the terminating zero byte. The C library fixes only the sign of the
  result; the model returns the difference of the two bytes at which the comparison
  stops, as the usual implementations do, and no property below rests on more than
  the sign. The end of a list is the terminator; a zero byte inside a list ends the
  string there, as it does in memory.
\<close>

fun strcmp :: "string \<Rightarrow> string \<Rightarrow> int" where
  "strcmp [] [] = 0"
| "strcmp [] (b # bs) = - int (of_char b)"
| "strcmp (a # as) [] = int (of_char a)"
| "strcmp (a # as) (b # bs) =
     (if a = b then (if of_char a = (0::nat) then 0 else strcmp as bs)
      else int (of_char a) - int (of_char b))"

text \<open>
  \<open>ship_compareTech\<close>, the comparison handed to \<^verbatim>\<open>qsort\<close>. \<open>cv\<close> is the numeric
  value of a member of the enumeration. The names reach \<^verbatim>\<open>strcmp\<close> only when class
  and price are equal; a \<^verbatim>\<open>NULL\<close> name there is undefined behaviour, the result
  \<open>None\<close>.
\<close>

definition ship_compareTech ::
  "(ShipClass \<Rightarrow> int) \<Rightarrow> ('st, 'sa) Ship \<Rightarrow> ('st, 'sa) Ship \<Rightarrow> int option" where
  "ship_compareTech cv s1 s2 =
     (if cv (class' s1) < cv (class' s2) then Some 1
      else if cv (class' s1) > cv (class' s2) then Some (-1)
      else if price s1 < price s2 then Some 1
      else if price s1 > price s2 then Some (-1)
      else (case (name s1, name s2) of
              (Some n1, Some n2) \<Rightarrow> Some (strcmp n1 n2)
            | _ \<Rightarrow> None))"

text \<open>
  \<open>ship_classFromString\<close>: the chain of comparisons of the source, in its order.
\<close>

definition ship_classFromString :: "string \<Rightarrow> ShipClass" where
  "ship_classFromString str =
     (if strcmp str ''Yacht'' = 0 then SHIP_CLASS_YACHT
      else if strcmp str ''Luxury Yacht'' = 0 then SHIP_CLASS_LUXURY_YACHT
      else if strcmp str ''Cruise Ship'' = 0 then SHIP_CLASS_CRUISE_SHIP
      else if strcmp str ''Courier'' = 0 then SHIP_CLASS_COURIER
      else if strcmp str ''Freighter'' = 0 then SHIP_CLASS_FREIGHTER
      else if strcmp str ''Armoured Transport'' = 0 then SHIP_CLASS_ARMOURED_TRANSPORT
      else if strcmp str ''Bulk Carrier'' = 0 then SHIP_CLASS_BULK_CARRIER
      else if strcmp str ''Scout'' = 0 then SHIP_CLASS_SCOUT
      else if strcmp str ''Fighter'' = 0 then SHIP_CLASS_FIGHTER
      else if strcmp str ''Bomber'' = 0 then SHIP_CLASS_BOMBER
      else if strcmp str ''Corvette'' = 0 then SHIP_CLASS_CORVETTE
      else if strcmp str ''Destroyer'' = 0 then SHIP_CLASS_DESTROYER
      else if strcmp str ''Cruiser'' = 0 then SHIP_CLASS_CRUISER
      else if strcmp str ''Carrier'' = 0 then SHIP_CLASS_CARRIER
      else if strcmp str ''Drone'' = 0 then SHIP_CLASS_DRONE
      else if strcmp str ''Heavy Drone'' = 0 then SHIP_CLASS_HEAVY_DRONE
      else if strcmp str ''Mothership'' = 0 then SHIP_CLASS_MOTHERSHIP
      else SHIP_CLASS_NULL)"

text \<open>
  \<open>ship_basePrice\<close> takes a pointer to the ship: the model returns the ship as the
  call leaves it, the price and what was logged.
\<close>

definition ship_basePrice ::
  "('st, 'sa) Ship \<Rightarrow> ('st, 'sa) Ship \<times> credits_t \<times> 'st event list" where
  "ship_basePrice s =
     (let price0 = price s in
      if price0 < 0 then (s, 0, [WARN_negative_price])
      else (s, price0, []))"

section \<open>The slot parser\<close>

text \<open>
  \<open>ship_parseSlot\<close> writes into the cell \<open>slot0\<close> it is given and returns 0; the
  model returns the cell and the warnings. It reads the ship's class and, for the
  warnings, its name.
\<close>

definition ship_parseSlot ::
  "('st, 'sa) env \<Rightarrow> ('st, 'sa) Ship \<Rightarrow> ShipOutfitSlot \<Rightarrow> OutfitSlotType \<Rightarrow> xmlNode
     \<Rightarrow> ShipOutfitSlot \<times> 'st event list" where
  "ship_parseSlot e temp slot0 type node =
     (let
        \<comment> \<open>Parse size.\<close>
        base_size =
          (case xmlr_attr node ''size'' of
             Some buf \<Rightarrow> outfit_toSlotSize e buf
           | None \<Rightarrow>
               if class' temp = SHIP_CLASS_BULK_CARRIER \<or>
                  class' temp = SHIP_CLASS_CRUISER \<or>
                  class' temp = SHIP_CLASS_CARRIER \<or>
                  class' temp = SHIP_CLASS_MOTHERSHIP
               then OUTFIT_SLOT_SIZE_HEAVY
               else if class' temp = SHIP_CLASS_CRUISE_SHIP \<or>
                  class' temp = SHIP_CLASS_FREIGHTER \<or>
                  class' temp = SHIP_CLASS_DESTROYER \<or>
                  class' temp = SHIP_CLASS_CORVETTE \<or>
                  class' temp = SHIP_CLASS_HEAVY_DRONE \<or>
                  class' temp = SHIP_CLASS_ARMOURED_TRANSPORT
               then OUTFIT_SLOT_SIZE_MEDIUM
               else OUTFIT_SLOT_SIZE_LIGHT);
        \<comment> \<open>Get mount point for weapons.\<close>
        (mx, wx) =
          (if type = OUTFIT_SLOT_WEAPON then
             (case xmlr_attr node ''x'' of
                Some buf \<Rightarrow> ((mount slot0)\<lparr>mount_x := atof e buf\<rparr>, [])
              | None \<Rightarrow> (mount slot0, [WARN_missing_mount (name temp) ''x'']))
           else (mount slot0, []));
        (my, wy) =
          (if type = OUTFIT_SLOT_WEAPON then
             (case xmlr_attr node ''y'' of
                Some buf \<Rightarrow> (mx\<lparr>mount_y := atof e buf * M_SQRT2\<rparr>, [])
              | None \<Rightarrow> (mx, [WARN_missing_mount (name temp) ''y'']))
           else (mx, []));
        (mh, wh) =
          (if type = OUTFIT_SLOT_WEAPON then
             (case xmlr_attr node ''h'' of
                Some buf \<Rightarrow> (my\<lparr>mount_h := atof e buf\<rparr>, [])
              | None \<Rightarrow> (my, [WARN_missing_mount (name temp) ''h'']))
           else (my, []));
        \<comment> \<open>Parse property.\<close>
        prop = xmlr_attr node ''prop'';
        (prop', excl, wp) =
          (case xmlr_attr node ''prop_exc'' of
             Some buf \<Rightarrow>
               if prop \<noteq> None then (prop, exclusive (slot slot0), [WARN_both_prop (name temp)])
               else (Some buf, 1, [])
           | None \<Rightarrow> (prop, exclusive (slot slot0), []));
        \<comment> \<open>Parsed required attribute.\<close>
        req = (if xmlr_attr node ''required'' \<noteq> None then 1 else required slot0);
        \<comment> \<open>Parse default outfit.\<close>
        (dat, wo) =
          (case xml_get node of
             Some buf \<Rightarrow>
               (outfit_get e buf,
                if outfit_get e buf = None then [WARN_default_outfit (name temp) buf] else [])
           | None \<Rightarrow> (data slot0, []))
      in
        (\<lparr> slot = \<lparr> property = prop', exclusive = excl, stype = type, size' = base_size \<rparr>,
           required = req, data = dat, mount = mh \<rparr>,
         wx @ wy @ wh @ wp @ wo))"

section \<open>The ship parser\<close>

text \<open>
  Modelled from the spec: the reading macros of nxml.h (numeric fields are decimal text
  put through the standard conversions): the number read from a node's text, 0 when
  the node has none. The conversions themselves are the C library's and are parameters.
\<close>

definition xml_getInt :: "('st, 'sa) env \<Rightarrow> xmlNode \<Rightarrow> int" where
  "xml_getInt e n = (case xml_get n of None \<Rightarrow> 0 | Some buf \<Rightarrow> atoi e buf)"

definition xml_getLong :: "('st, 'sa) env \<Rightarrow> xmlNode \<Rightarrow> int" where
  "xml_getLong e n = (case xml_get n of None \<Rightarrow> 0 | Some buf \<Rightarrow> atol e buf)"

definition xml_getFloat :: "('st, 'sa) env \<Rightarrow> xmlNode \<Rightarrow> real" where
  "xml_getFloat e n = (case xml_get n of None \<Rightarrow> 0 | Some buf \<Rightarrow> atof e buf)"

definition STATS_DESC_MAX :: nat where
  "STATS_DESC_MAX = 128"

definition ship_loadGFX ::
  "('st, 'sa) env \<Rightarrow> ('st, 'sa) Ship \<Rightarrow> string \<Rightarrow> int \<Rightarrow> int
     \<Rightarrow> ('st, 'sa) Ship \<times> 'st event list" where
  "ship_loadGFX e temp buf sx sy =
     (let (g, ws) =
            loadGFX e
              \<lparr> g_space = gfx_space temp, g_engine = gfx_engine temp,
                g_target = gfx_target temp, g_store = gfx_store temp,
                g_comm = gfx_comm temp, g_mangle = mangle temp \<rparr>
              (name temp) buf sx sy
      in (temp\<lparr> gfx_space := g_space g, gfx_engine := g_engine g,
                 gfx_target := g_target g, gfx_store := g_store g,
                 gfx_comm := g_comm g, mangle := g_mangle g \<rparr>,
          map (WARN_gfx (name temp)) ws))"

text \<open>
  Every loop of \<open>ship_parse\<close> is a \<^verbatim>\<open>do ... while (xml_nextNode(cur))\<close> over a list
  of siblings whose body starts with \<^verbatim>\<open>xml_onlyNodes(cur)\<close>: a node that is not an
  element, and the \<^verbatim>\<open>NULL\<close> of an empty list, are passed over. Each loop is a
  recursion over the list of siblings that returns the ship and the messages written.

  The first loop looks for the class. \<open>ship_classFromString\<close> hands the text of the node
  to \<^verbatim>\<open>strcmp\<close>; when the node has no text the pointer is \<^verbatim>\<open>NULL\<close> and the
  behaviour is undefined, the result \<open>None\<close>.
\<close>

fun ship_parse_class :: "('st, 'sa) Ship \<Rightarrow> xmlNode list \<Rightarrow> ('st, 'sa) Ship option" where
  "ship_parse_class temp [] = Some temp"
| "ship_parse_class temp (node # rest) =
     (if ntype node \<noteq> XML_NODE_START then ship_parse_class temp rest
      else if xml_isNode node ''class'' then
        (case xml_get node of
           None \<Rightarrow> None
         | Some str \<Rightarrow> ship_parse_class (temp\<lparr>class' := ship_classFromString str\<rparr>) rest)
      else ship_parse_class temp rest)"

fun ship_parse_movement ::
  "('st, 'sa) env \<Rightarrow> ('st, 'sa) Ship \<Rightarrow> xmlNode list \<Rightarrow> ('st, 'sa) Ship \<times> 'st event list" where
  "ship_parse_movement e temp [] = (temp, [])"
| "ship_parse_movement e temp (cur # rest) =
     (if ntype cur \<noteq> XML_NODE_START then ship_parse_movement e temp rest
      else if xml_isNode cur ''thrust'' then
        ship_parse_movement e (temp\<lparr>thrust := xml_getFloat e cur\<rparr>) rest
      else if xml_isNode cur ''turn'' then
        ship_parse_movement e (temp\<lparr>turn := xml_getFloat e cur\<rparr>) rest
      else if xml_isNode cur ''speed'' then
        ship_parse_movement e (temp\<lparr>speed := xml_getFloat e cur\<rparr>) rest
      else
        (let (temp', ws) = ship_parse_movement e temp rest
         in (temp', WARN_unknown_movement (name temp) (nname cur) # ws)))"

fun ship_parse_health ::
  "('st, 'sa) env \<Rightarrow> ('st, 'sa) Ship \<Rightarrow> xmlNode list \<Rightarrow> ('st, 'sa) Ship \<times> 'st event list" where
  "ship_parse_health e temp [] = (temp, [])"
| "ship_parse_health e temp (cur # rest) =
     (if ntype cur \<noteq> XML_NODE_START then ship_parse_health e temp rest
      else if xml_isNode cur ''absorb'' then
        ship_parse_health e (temp\<lparr>dmg_absorb := xml_getFloat e cur\<rparr>) rest
      else if xml_isNode cur ''armour'' then
        ship_parse_health e (temp\<lparr>armour := xml_getFloat e cur\<rparr>) rest
      else if xml_isNode cur ''armour_regen'' then
        ship_parse_health e (temp\<lparr>armour_regen := xml_getFloat e cur\<rparr>) rest
      else if xml_isNode cur ''shield'' then
        ship_parse_health e (temp\<lparr>shield := xml_getFloat e cur\<rparr>) rest
      else if xml_isNode cur ''shield_regen'' then
        ship_parse_health e (temp\<lparr>shield_regen := xml_getFloat e cur\<rparr>) rest
      else if xml_isNode cur ''energy'' then
        ship_parse_health e (temp\<lparr>energy := xml_getFloat e cur\<rparr>) rest
      else if xml_isNode cur ''energy_regen'' then
        ship_parse_health e (temp\<lparr>energy_regen := xml_getFloat e cur\<rparr>) rest
      else
        (let (temp', ws) = ship_parse_health e temp rest
         in (temp', WARN_unknown_health (name temp) (nname cur) # ws)))"

fun ship_parse_characteristics ::
  "('st, 'sa) env \<Rightarrow> ('st, 'sa) Ship \<Rightarrow> xmlNode list \<Rightarrow> ('st, 'sa) Ship \<times> 'st event list" where
  "ship_parse_characteristics e temp [] = (temp, [])"
| "ship_parse_characteristics e temp (cur # rest) =
     (if ntype cur \<noteq> XML_NODE_START then ship_parse_characteristics e temp rest
      else if xml_isNode cur ''crew'' then
        ship_parse_characteristics e (temp\<lparr>crew := xml_getInt e cur\<rparr>) rest
      else if xml_isNode cur ''mass'' then
        ship_parse_characteristics e (temp\<lparr>mass := xml_getFloat e cur\<rparr>) rest
      else if xml_isNode cur ''cpu'' then
        ship_parse_characteristics e (temp\<lparr>cpu := xml_getFloat e cur\<rparr>) rest
      else if xml_isNode cur ''fuel'' then
        ship_parse_characteristics e (temp\<lparr>fuel := xml_getInt e cur\<rparr>) rest
      else if xml_isNode cur ''cap_cargo'' then
        ship_parse_characteristics e (temp\<lparr>cap_cargo := xml_getFloat e cur\<rparr>) rest
      else
        (let (temp', ws) = ship_parse_characteristics e temp rest
         in (temp', WARN_unknown_characteristic (name temp) (nname cur) # ws)))"

text \<open>The slots block. First pass: the counters of the ship go up, one per node.\<close>

fun ship_parse_slots_count ::
  "('st, 'sa) Ship \<Rightarrow> xmlNode list \<Rightarrow> ('st, 'sa) Ship \<times> 'st event list" where
  "ship_parse_slots_count temp [] = (temp, [])"
| "ship_parse_slots_count temp (cur # rest) =
     (if ntype cur \<noteq> XML_NODE_START then ship_parse_slots_count temp rest
      else if xml_isNode cur ''structure'' then
        ship_parse_slots_count (temp\<lparr>outfit_nstructure := outfit_nstructure temp + 1\<rparr>) rest
      else if xml_isNode cur ''utility'' then
        ship_parse_slots_count (temp\<lparr>outfit_nutility := outfit_nutility temp + 1\<rparr>) rest
      else if xml_isNode cur ''weapon'' then
        ship_parse_slots_count (temp\<lparr>outfit_nweapon := outfit_nweapon temp + 1\<rparr>) rest
      else
        (let (temp', ws) = ship_parse_slots_count temp rest
         in (temp', WARN_unknown_slot (name temp) (nname cur) # ws)))"

text \<open>
  Second pass: \<open>l\<close>, \<open>m\<close> and \<open>h\<close> are the next free cell of each array. The source
  tests the three names one after the other; a node has one name, so at most one test
  succeeds. The cell written is inside its array: the first pass has counted the same
  nodes, and the counters start at 0 and only grow (\<open>fits\<close> and \<open>slots_block_result\<close>
  below).
\<close>

fun ship_parse_slots_fill ::
  "('st, 'sa) env \<Rightarrow> ('st, 'sa) Ship \<Rightarrow> nat \<Rightarrow> nat \<Rightarrow> nat \<Rightarrow> xmlNode list
     \<Rightarrow> ('st, 'sa) Ship \<times> 'st event list" where
  "ship_parse_slots_fill e temp l m h [] = (temp, [])"
| "ship_parse_slots_fill e temp l m h (cur # rest) =
     (if ntype cur \<noteq> XML_NODE_START then ship_parse_slots_fill e temp l m h rest
      else if xml_isNode cur ''structure'' then
        (let (s, w) = ship_parseSlot e temp (outfit_structure temp ! l) OUTFIT_SLOT_STRUCTURE cur;
             (temp', ws) =
               ship_parse_slots_fill e
                 (temp\<lparr>outfit_structure := (outfit_structure temp)[l := s]\<rparr>) (l + 1) m h rest
         in (temp', w @ ws))
      else if xml_isNode cur ''utility'' then
        (let (s, w) = ship_parseSlot e temp (outfit_utility temp ! m) OUTFIT_SLOT_UTILITY cur;
             (temp', ws) =
               ship_parse_slots_fill e
                 (temp\<lparr>outfit_utility := (outfit_utility temp)[m := s]\<rparr>) l (m + 1) h rest
         in (temp', w @ ws))
      else if xml_isNode cur ''weapon'' then
        (let (s, w) = ship_parseSlot e temp (outfit_weapon temp ! h) OUTFIT_SLOT_WEAPON cur;
             (temp', ws) =
               ship_parse_slots_fill e
                 (temp\<lparr>outfit_weapon := (outfit_weapon temp)[h := s]\<rparr>) l m (h + 1) rest
         in (temp', w @ ws))
      else ship_parse_slots_fill e temp l m h rest)"

text \<open>
  The whole block: count, allocate three zeroed arrays of the counted lengths, fill.
\<close>

definition ship_parse_slots ::
  "('st, 'sa) env \<Rightarrow> ('st, 'sa) Ship \<Rightarrow> xmlNode \<Rightarrow> ('st, 'sa) Ship \<times> 'st event list" where
  "ship_parse_slots e temp node =
     (let (temp1, w1) = ship_parse_slots_count temp (nchildren node);
          temp2 = temp1\<lparr>
            outfit_structure := replicate (nat (outfit_nstructure temp1)) zero_slot,
            outfit_utility := replicate (nat (outfit_nutility temp1)) zero_slot,
            outfit_weapon := replicate (nat (outfit_nweapon temp1)) zero_slot \<rparr>;
          (temp3, w3) = ship_parse_slots_fill e temp2 0 0 0 (nchildren node)
      in (temp3, w1 @ w3))"

text \<open>
  The stats block. A node that \<open>ss_listFromXML\<close> turns into a list cell is linked in
  front of the ship's list; the others are warned about.
\<close>

fun ship_parse_stats_list ::
  "('st, 'sa) env \<Rightarrow> ('st, 'sa) Ship \<Rightarrow> xmlNode list \<Rightarrow> ('st, 'sa) Ship \<times> 'st event list" where
  "ship_parse_stats_list e temp [] = (temp, [])"
| "ship_parse_stats_list e temp (cur # rest) =
     (if ntype cur \<noteq> XML_NODE_START then ship_parse_stats_list e temp rest
      else
        (case ss_listFromXML e cur of
           Some ll \<Rightarrow> ship_parse_stats_list e (temp\<lparr>stats := ll # stats temp\<rparr>) rest
         | None \<Rightarrow>
             (let (temp', ws) = ship_parse_stats_list e temp rest
              in (temp', WARN_unknown_stat (name temp) (nname cur) # ws))))"

definition ship_parse_stats ::
  "('st, 'sa) env \<Rightarrow> ('st, 'sa) Ship \<Rightarrow> xmlNode \<Rightarrow> ('st, 'sa) Ship \<times> 'st event list" where
  "ship_parse_stats e temp node =
     (let (temp1, w1) = ship_parse_stats_list e temp (nchildren node);
          \<comment> \<open>Load array.\<close>
          temp2 = temp1\<lparr>stats_array := ss_statsModFromList e (ss_statsInit e) (stats temp1)\<rparr>;
          w2 = [CALL_ss_statsInit, CALL_ss_statsModFromList (stats temp1)]
      in
        \<comment> \<open>Create description.\<close>
        if stats temp2 \<noteq> [] then
          (let (i, buf) = ss_statsListDesc e (stats temp2) STATS_DESC_MAX
           in (temp2\<lparr>desc_stats := (if i \<le> 0 then None else Some buf)\<rparr>,
               w1 @ w2 @ [CALL_ss_statsListDesc (stats temp2) STATS_DESC_MAX]))
        else (temp2, w1 @ w2))"

text \<open>The body of the main loop, for one element node, its tests in the source's order.\<close>

definition ship_parse_node ::
  "('st, 'sa) env \<Rightarrow> ('st, 'sa) Ship \<Rightarrow> xmlNode \<Rightarrow> ('st, 'sa) Ship \<times> 'st event list" where
  "ship_parse_node e temp node =
     (if xml_isNode node ''GFX'' then
        (case xml_get node of
           None \<Rightarrow> (temp, [WARN_gfx_null (name temp)])
         | Some buf \<Rightarrow>
             (let sx = (case xmlr_attr node ''sx'' of Some stmp \<Rightarrow> atoi e stmp | None \<Rightarrow> 8);
                  sy = (case xmlr_attr node ''sy'' of Some stmp \<Rightarrow> atoi e stmp | None \<Rightarrow> 8)
              in ship_loadGFX e temp buf sx sy))
      else if xml_isNode node ''GUI'' then (temp\<lparr>gui := xml_get node\<rparr>, [])
      else if xml_isNode node ''sound'' then (temp\<lparr>sound := sound_get e (xml_get node)\<rparr>, [])
      else if xml_isNode node ''base_type'' then (temp\<lparr>base_type := xml_get node\<rparr>, [])
      else if xml_isNode node ''class'' then (temp, [])
      else if xml_isNode node ''price'' then (temp\<lparr>price := xml_getLong e node\<rparr>, [])
      else if xml_isNode node ''license'' then (temp\<lparr>license := xml_get node\<rparr>, [])
      else if xml_isNode node ''fabricator'' then (temp\<lparr>fabricator := xml_get node\<rparr>, [])
      else if xml_isNode node ''description'' then (temp\<lparr>description := xml_get node\<rparr>, [])
      else if xml_isNode node ''movement'' then ship_parse_movement e temp (nchildren node)
      else if xml_isNode node ''health'' then ship_parse_health e temp (nchildren node)
      else if xml_isNode node ''characteristics'' then
        ship_parse_characteristics e temp (nchildren node)
      else if xml_isNode node ''slots'' then ship_parse_slots e temp node
      else if xml_isNode node ''stats'' then ship_parse_stats e temp node
      else (temp, [DEBUG_unknown_node (name temp) (nname node)]))"

fun ship_parse_nodes ::
  "('st, 'sa) env \<Rightarrow> ('st, 'sa) Ship \<Rightarrow> xmlNode list \<Rightarrow> ('st, 'sa) Ship \<times> 'st event list" where
  "ship_parse_nodes e temp [] = (temp, [])"
| "ship_parse_nodes e temp (node # rest) =
     (if ntype node \<noteq> XML_NODE_START then ship_parse_nodes e temp rest
      else
        (let (temp1, w1) = ship_parse_node e temp node;
             (temp2, w2) = ship_parse_nodes e temp1 rest
         in (temp2, w1 @ w2)))"

text \<open>
  The ship after \<^verbatim>\<open>memset\<close>, the two defaults and \<open>ss_statsInit\<close>, with the name
  read from the attribute.
\<close>

definition ship_parse_init :: "('st, 'sa) env \<Rightarrow> xmlNode \<Rightarrow> ('st, 'sa) Ship" where
  "ship_parse_init e parent =
     \<lparr> name = xmlr_attr parent ''name'', base_type = None, class' = SHIP_CLASS_NULL,
       price = 0, license = None, fabricator = None, description = None,
       thrust = -1, turn = 0, speed = -1,
       gfx_space = None, gfx_engine = None, gfx_target = None, gfx_store = None,
       gfx_comm = None, gui = None, sound = 0, crew = 0, mass = 0, cpu = 0, fuel = 0,
       cap_cargo = 0, armour = 0, armour_regen = 0, shield = 0, shield_regen = 0,
       energy = 0, energy_regen = 0, dmg_absorb = 0,
       outfit_structure = [], outfit_nstructure = 0,
       outfit_utility = [], outfit_nutility = 0,
       outfit_weapon = [], outfit_nweapon = 0,
       mangle = 0, stats = [], stats_array = ss_statsInit e, desc_stats = None \<rparr>"

text \<open>Post processing, the three conversions in the source's order.\<close>

definition ship_postprocess :: "('st, 'sa) Ship \<Rightarrow> ('st, 'sa) Ship" where
  "ship_postprocess temp =
     (let t1 = temp\<lparr>dmg_absorb := dmg_absorb temp / 100\<rparr>;
          t2 = t1\<lparr>turn := turn t1 * (M_PI / 180)\<rparr>
      in t2\<lparr>thrust := thrust t2 * mass t2\<rparr>)"

text \<open>
  The ship validator: the tests of the \<^verbatim>\<open>MELEMENT\<close> lines with the element each
  one names, in the source's order; each test that holds writes its warning.
\<close>

definition ship_validator_tests :: "('st, 'sa) Ship \<Rightarrow> (bool \<times> string) list" where
  "ship_validator_tests temp =
     [ (name temp = None, ''name''),
       (base_type temp = None, ''base_type''),
       (gfx_space temp = None, ''GFX''),
       (gui temp = None, ''GUI''),
       (class' temp = SHIP_CLASS_NULL, ''class''),
       (price temp = 0, ''price''),
       (fabricator temp = None, ''fabricator''),
       (description temp = None, ''description''),
       (thrust temp = -1, ''thrust''),
       (turn temp = 0, ''turn''),
       (speed temp = -1, ''speed''),
       (armour temp = 0, ''armour''),
       (shield temp = 0, ''shield''),
       (shield_regen temp = 0, ''shield_regen''),
       (energy temp = 0, ''energy''),
       (energy_regen temp = 0, ''energy_regen''),
       (fuel temp = 0, ''fuel''),
       (crew temp = 0, ''crew''),
       (mass temp = 0, ''mass''),
       (cpu temp = 0, ''cpu''),
       (cap_cargo temp = 0, ''cap_cargo'') ]"

definition ship_validate :: "('st, 'sa) Ship \<Rightarrow> 'st event list" where
  "ship_validate temp =
     map (\<lambda>(c, s). WARN_missing_element (name temp) s)
       (filter fst (ship_validator_tests temp))"

text \<open>
  \<open>ship_parse\<close> returns 0 whenever it returns; \<open>None\<close> is the undefined behaviour of the
  class loop.
\<close>

definition ship_parse ::
  "('st, 'sa) env \<Rightarrow> xmlNode \<Rightarrow> (('st, 'sa) Ship \<times> 'st event list) option" where
  "ship_parse e parent =
     (let temp0 = ship_parse_init e parent;
          w0 = (if name temp0 = None then [WARN_no_name] else [])
      in
        case ship_parse_class temp0 (nchildren parent) of
          None \<Rightarrow> None
        | Some temp1 \<Rightarrow>
            (let (temp2, w2) = ship_parse_nodes e temp1 (nchildren parent);
                 temp3 = ship_postprocess temp2
             in Some (temp3, CALL_ss_statsInit # w0 @ w2 @ ship_validate temp3)))"

section \<open>Loading the catalog\<close>

text \<open>
  Modelled from the spec: array.h, the growable array behind \<open>ship_stack\<close>, is not
  among the sources. The spec calls it a growable store that the load shrinks to exact
  size when done. The model keeps the elements and the number of cells reserved;
  growing doubles the reservation when it is full.
\<close>

record 'a array =
  items :: "'a list"
  reserved :: nat









section \<open>The display order, and sample data\<close>

text \<open>
  The string that C reads in a list of bytes: the bytes before the first zero byte.
  Bytes in increasing order: \<open>lexord byte_less\<close> is the lexicographic order on names.
\<close>

definition cstr :: "string \<Rightarrow> string" where
  "cstr s = takeWhile (\<lambda>c. of_char c \<noteq> (0::nat)) s"

definition byte_less :: "(char \<times> char) set" where
  "byte_less = {(c, d). (of_char c :: nat) < of_char d}"

text \<open>
  The order on ships by class value descending, then price descending, then name
  ascending, and the ships that agree on all three keys.
\<close>

definition display_before ::
  "(ShipClass \<Rightarrow> int) \<Rightarrow> ('st, 'sa) Ship \<Rightarrow> ('st, 'sa) Ship \<Rightarrow> bool" where
  "display_before cv a b =
     (cv (class' b) < cv (class' a) \<or>
      cv (class' a) = cv (class' b) \<and>
        (price b < price a \<or>
         price a = price b \<and>
           (cstr (the (name a)), cstr (the (name b))) \<in> lexord byte_less))"

definition display_same ::
  "(ShipClass \<Rightarrow> int) \<Rightarrow> ('st, 'sa) Ship \<Rightarrow> ('st, 'sa) Ship \<Rightarrow> bool" where
  "display_same cv a b =
     (cv (class' a) = cv (class' b) \<and> price a = price b \<and>
      cstr (the (name a)) = cstr (the (name b)))"

text \<open>
  The sign of what \<open>ship_compareTech\<close> returns, which is all that \<^verbatim>\<open>qsort\<close> reads
  of it: -1 puts the first ship before the second.
\<close>

definition compare_sign ::
  "(ShipClass \<Rightarrow> int) \<Rightarrow> ('st, 'sa) Ship \<Rightarrow> ('st, 'sa) Ship \<Rightarrow> int option" where
  "compare_sign cv a b = map_option sgn (ship_compareTech cv a b)"

text \<open>
  A sample environment: numbers are read as unsigned decimals, one outfit exists, a
  statistic is a pair of a name and a value and every node but \<open>bogus\<close> is one.
\<close>

definition dec :: "string \<Rightarrow> nat" where
  "dec s = foldl (\<lambda>n c. 10 * n + (of_char c - 48)) 0 s"

definition sample_env :: "(string \<times> real, (string \<times> real) list) env" where
  "sample_env =
     \<lparr> outfit_toSlotSize = (\<lambda>s. if s = ''Heavy'' then OUTFIT_SLOT_SIZE_HEAVY
                               else if s = ''Medium'' then OUTFIT_SLOT_SIZE_MEDIUM
                               else if s = ''Light'' then OUTFIT_SLOT_SIZE_LIGHT
                               else OUTFIT_SLOT_SIZE_NA),
       outfit_get = (\<lambda>s. if s = ''Laser Cannon'' then Some 7 else None),
       sound_get = (\<lambda>s. 0),
       atof = (\<lambda>s. real (dec s)),
       atoi = (\<lambda>s. int (dec s)),
       atol = (\<lambda>s. int (dec s)),
       loadGFX = (\<lambda>g n buf sx sy. (g\<lparr>g_space := Some 1\<rparr>, [])),
       ss_statsInit = [],
       ss_statsModFromList = (\<lambda>a l. a @ l),
       ss_listFromXML =
         (\<lambda>n. if nname n = ''bogus'' then None
              else Some (nname n, real (dec (case xml_get n of None \<Rightarrow> [] | Some s \<Rightarrow> s)))),
       ss_statsListDesc = (\<lambda>l cap. (int (length l), take cap (concat (map fst l)))) \<rparr>"

text \<open>The class values in the order in which \<open>ship_class\<close> lists the classes.\<close>

definition sample_class_value :: "ShipClass \<Rightarrow> int" where
  "sample_class_value c =
     (case c of
        SHIP_CLASS_NULL \<Rightarrow> 0 | SHIP_CLASS_YACHT \<Rightarrow> 1 | SHIP_CLASS_LUXURY_YACHT \<Rightarrow> 2
      | SHIP_CLASS_CRUISE_SHIP \<Rightarrow> 3 | SHIP_CLASS_COURIER \<Rightarrow> 4
      | SHIP_CLASS_ARMOURED_TRANSPORT \<Rightarrow> 5 | SHIP_CLASS_FREIGHTER \<Rightarrow> 6
      | SHIP_CLASS_BULK_CARRIER \<Rightarrow> 7 | SHIP_CLASS_SCOUT \<Rightarrow> 8 | SHIP_CLASS_FIGHTER \<Rightarrow> 9
      | SHIP_CLASS_BOMBER \<Rightarrow> 10 | SHIP_CLASS_CORVETTE \<Rightarrow> 11 | SHIP_CLASS_DESTROYER \<Rightarrow> 12
      | SHIP_CLASS_CRUISER \<Rightarrow> 13 | SHIP_CLASS_CARRIER \<Rightarrow> 14 | SHIP_CLASS_DRONE \<Rightarrow> 15
      | SHIP_CLASS_HEAVY_DRONE \<Rightarrow> 16 | SHIP_CLASS_MOTHERSHIP \<Rightarrow> 17)"

definition sample_cruiser :: "(string \<times> real, (string \<times> real) list) Ship" where
  "sample_cruiser =
     (ship_parse_init sample_env (XmlNode 1 ''ship'' [(''name'', ''Kestrel'')] None []))
       \<lparr> class' := SHIP_CLASS_CRUISER \<rparr>"

definition sample_yacht :: "(string \<times> real, (string \<times> real) list) Ship" where
  "sample_yacht =
     (ship_parse_init sample_env (XmlNode 1 ''ship'' [(''name'', ''Gawain'')] None []))
       \<lparr> class' := SHIP_CLASS_YACHT, price := 900000 \<rparr>"

definition sample_slot_conflict :: xmlNode where
  "sample_slot_conflict =
     XmlNode 1 ''weapon'' [(''prop'', ''engine''), (''prop_exc'', ''hull'')] None []"

definition sample_slot_weapon :: xmlNode where
  "sample_slot_weapon =
     XmlNode 1 ''weapon'' [(''x'', ''3''), (''h'', ''5''), (''required'', '''')] None
       [XmlNode 3 ''text'' [] (Some ''Laser Cannon'') []]"

text \<open>
  Sample ship elements. The first declares a class, a mass and a speed, and no thrust;
  the second has two slots blocks; the third has one slots block and a stats block.
\<close>

definition xml_text :: "string \<Rightarrow> xmlNode" where
  "xml_text s = XmlNode 3 ''text'' [] (Some s) []"

definition xml_elem :: "string \<Rightarrow> string \<Rightarrow> xmlNode" where
  "xml_elem n s = XmlNode 1 n [] None [xml_text s]"

definition sample_ship_no_thrust :: xmlNode where
  "sample_ship_no_thrust =
     XmlNode 1 ''ship'' [(''name'', ''Llama'')] None
       [ xml_elem ''class'' ''Freighter'',
         XmlNode 1 ''characteristics'' [] None [xml_elem ''mass'' ''10''],
         XmlNode 1 ''movement'' [] None [xml_elem ''speed'' ''200''] ]"

definition sample_block_heavy :: xmlNode where
  "sample_block_heavy =
     XmlNode 1 ''slots'' [] None [XmlNode 1 ''structure'' [(''size'', ''Heavy'')] None []]"

definition sample_block_light :: xmlNode where
  "sample_block_light =
     XmlNode 1 ''slots'' [] None [XmlNode 1 ''structure'' [(''size'', ''Light'')] None []]"

definition sample_ship_two_blocks :: xmlNode where
  "sample_ship_two_blocks =
     XmlNode 1 ''ship'' [(''name'', ''Twin'')] None [sample_block_heavy, sample_block_light]"

definition sample_slots :: xmlNode where
  "sample_slots =
     XmlNode 1 ''slots'' [] None
       [ XmlNode 1 ''structure'' [(''size'', ''Heavy'')] None [],
         xml_text '' '',
         XmlNode 1 ''structure'' [] None [],
         XmlNode 1 ''utility'' [(''prop'', ''systems'')] None [],
         XmlNode 1 ''turret'' [] None [],
         XmlNode 1 ''weapon'' [(''x'', ''1''), (''y'', ''2''), (''h'', ''3'')] None [],
         XmlNode 1 ''weapon'' [(''x'', ''4''), (''y'', ''5''), (''h'', ''6'')] None [],
         XmlNode 1 ''weapon'' [(''x'', ''7''), (''y'', ''8''), (''h'', ''9'')] None [] ]"

definition sample_stats :: xmlNode where
  "sample_stats =
     XmlNode 1 ''stats'' [] None
       [ xml_elem ''cargo_mod'' ''10'', xml_elem ''bogus'' ''1'', xml_elem ''jump_delay'' ''2'' ]"

definition sample_stats_empty :: xmlNode where
  "sample_stats_empty = XmlNode 1 ''stats'' [] None [xml_elem ''bogus'' ''1'']"

definition sample_ship_slots :: xmlNode where
  "sample_ship_slots =
     XmlNode 1 ''ship'' [(''name'', ''Pacifier'')] None
       [ xml_elem ''class'' ''Destroyer'', sample_slots, sample_stats ]"





text \<open>
  A second yacht, of the class and price of the first and with the name of the
  cruiser; and a document whose only ship has a class element without text.
\<close>

definition sample_yacht_2 :: "(string \<times> real, (string \<times> real) list) Ship" where
  "sample_yacht_2 = sample_yacht \<lparr> name := Some ''Kestrel'' \<rparr>"


text \<open>
  Notions the properties of the parser are stated with: the children of a block that
  are elements of a given name, whether a ship element declares a thrust, whether it
  has a class element without text, and the warnings of the validator.
\<close>

definition slot_nodes :: "string \<Rightarrow> xmlNode list \<Rightarrow> xmlNode list" where
  "slot_nodes s cs = filter (\<lambda>c. xml_isNode c s) cs"

definition is_slot_node :: "xmlNode \<Rightarrow> bool" where
  "is_slot_node c =
     (xml_isNode c ''structure'' \<or> xml_isNode c ''utility'' \<or> xml_isNode c ''weapon'')"

definition slot_type_of :: "xmlNode \<Rightarrow> OutfitSlotType" where
  "slot_type_of c =
     (if nname c = ''structure'' then OUTFIT_SLOT_STRUCTURE
      else if nname c = ''utility'' then OUTFIT_SLOT_UTILITY
      else OUTFIT_SLOT_WEAPON)"

definition declares_thrust :: "xmlNode \<Rightarrow> bool" where
  "declares_thrust parent =
     list_ex (\<lambda>node. xml_isNode node ''movement'' \<and>
                     list_ex (\<lambda>cur. xml_isNode cur ''thrust'') (nchildren node))
       (nchildren parent)"

definition empty_class :: "xmlNode \<Rightarrow> bool" where
  "empty_class parent =
     list_ex (\<lambda>node. xml_isNode node ''class'' \<and> xml_get node = None) (nchildren parent)"

fun is_missing_element :: "'st event \<Rightarrow> bool" where
  "is_missing_element (WARN_missing_element n s) = True"
| "is_missing_element w = False"

text \<open>What a step of the parser leaves alone.\<close>

definition same_ident :: "('st, 'sa) Ship \<Rightarrow> ('st, 'sa) Ship \<Rightarrow> bool" where
  "same_ident t t' = (name t' = name t \<and> class' t' = class' t)"

definition same_outfits :: "('st, 'sa) Ship \<Rightarrow> ('st, 'sa) Ship \<Rightarrow> bool" where
  "same_outfits t t' =
     (outfit_structure t' = outfit_structure t \<and> outfit_nstructure t' = outfit_nstructure t \<and>
      outfit_utility t' = outfit_utility t \<and> outfit_nutility t' = outfit_nutility t \<and>
      outfit_weapon t' = outfit_weapon t \<and> outfit_nweapon t' = outfit_nweapon t)"

text \<open>
  The second pass over a slots block, seen from one array \<open>S\<close>: \<open>fits\<close> says that
  the nodes still to come have room from cell \<open>l\<close> on and that those cells are still
  zeroed; \<open>filled\<close> is the array once they are parsed.
\<close>

definition filled ::
  "('st, 'sa) env \<Rightarrow> ('st, 'sa) Ship \<Rightarrow> OutfitSlotType \<Rightarrow> string \<Rightarrow> nat \<Rightarrow> xmlNode list
     \<Rightarrow> ShipOutfitSlot list \<Rightarrow> ShipOutfitSlot list" where
  "filled e t ty s l cs S =
     take l S @ map (\<lambda>c. fst (ship_parseSlot e t zero_slot ty c)) (slot_nodes s cs) @
     drop (l + length (slot_nodes s cs)) S"

definition fits :: "string \<Rightarrow> nat \<Rightarrow> xmlNode list \<Rightarrow> ShipOutfitSlot list \<Rightarrow> bool" where
  "fits s l cs S =
     (l + length (slot_nodes s cs) \<le> length S \<and>
      (\<forall>i. l \<le> i \<longrightarrow> i < length S \<longrightarrow> S ! i = zero_slot))"

text \<open>
  The statistics that \<open>ss_listFromXML\<close> makes of the elements of a stats block, in
  document order, and the ship elements of a document.
\<close>

definition recognized_stats :: "('st, 'sa) env \<Rightarrow> xmlNode list \<Rightarrow> 'st list" where
  "recognized_stats e cs =
     List.map_filter (ss_listFromXML e) (filter (\<lambda>c. ntype c = XML_NODE_START) cs)"


section \<open>Properties of the small functions\<close>

lemma strcmp_eq_0_iff: "strcmp a b = 0 \<longleftrightarrow> cstr a = cstr b"
  by (induction a b rule: strcmp.induct) (auto simp: cstr_def)

lemma strcmp_neg_iff: "strcmp a b < 0 \<longleftrightarrow> (cstr a, cstr b) \<in> lexord byte_less"
  by (induction a b rule: strcmp.induct) (auto simp: cstr_def byte_less_def)

lemma strcmp_swap: "strcmp b a = - strcmp a b"
  by (induction a b rule: strcmp.induct) auto

lemma cstr_literal: "\<forall>c \<in> set s. of_char c \<noteq> (0::nat) \<Longrightarrow> cstr s = s"
  by (simp add: cstr_def)

lemma trans_byte_less: "trans byte_less"
  by (auto simp: byte_less_def trans_def)

lemma strcmp_le_iff:
  "strcmp a b \<le> 0 \<longleftrightarrow> cstr a = cstr b \<or> (cstr a, cstr b) \<in> lexord byte_less"
  using strcmp_eq_0_iff [of a b] strcmp_neg_iff [of a b] by auto

lemma strcmp_trans: "strcmp a b \<le> 0 \<Longrightarrow> strcmp b c \<le> 0 \<Longrightarrow> strcmp a c \<le> 0"
  unfolding strcmp_le_iff using lexord_trans [OF _ _ trans_byte_less] by auto

lemma compareTech_None_iff:
  "ship_compareTech cv a b = None \<longleftrightarrow>
   cv (class' a) = cv (class' b) \<and> price a = price b \<and> (name a = None \<or> name b = None)"
  by (cases "name a"; cases "name b") (auto simp: ship_compareTech_def)

lemma compare_sign_cases:
  assumes "name a \<noteq> None" "name b \<noteq> None"
  shows "compare_sign cv a b =
     Some (if cv (class' a) < cv (class' b) then 1
           else if cv (class' a) > cv (class' b) then -1
           else if price a < price b then 1
           else if price a > price b then -1
           else sgn (strcmp (the (name a)) (the (name b))))"
  using assms by (auto simp: compare_sign_def ship_compareTech_def)

lemma sgn_int_iff:
  "sgn (v::int) = -1 \<longleftrightarrow> v < 0" "sgn v = 0 \<longleftrightarrow> v = 0" "sgn v = 1 \<longleftrightarrow> 0 < v"
  by (auto simp: sgn_if)

lemma compare_sign_before:
  assumes "name a \<noteq> None" "name b \<noteq> None"
  shows "(compare_sign cv a b = Some (-1)) = display_before cv a b"
  using assms strcmp_neg_iff [of "the (name a)" "the (name b)"]
  by (auto simp: compare_sign_cases display_before_def sgn_int_iff)

lemma compare_sign_same:
  assumes "name a \<noteq> None" "name b \<noteq> None"
  shows "(compare_sign cv a b = Some 0) = display_same cv a b"
  using assms strcmp_eq_0_iff [of "the (name a)" "the (name b)"]
  by (auto simp: compare_sign_cases display_same_def sgn_int_iff)

lemma compare_sign_range:
  assumes "name a \<noteq> None" "name b \<noteq> None"
  shows "compare_sign cv a b \<in> {Some (-1), Some 0, Some 1}"
  using assms by (auto simp: compare_sign_cases sgn_if)

lemma compare_sign_swap:
  "compare_sign cv b a = map_option uminus (compare_sign cv a b)"
  using strcmp_swap [of "the (name a)" "the (name b)"]
  by (cases "name a"; cases "name b")
     (auto simp: compare_sign_def ship_compareTech_def sgn_if)

lemma compare_sign_le:
  "compare_sign cv a b \<in> {Some (-1), Some 0} \<longleftrightarrow>
     cv (class' b) < cv (class' a) \<or>
     cv (class' a) = cv (class' b) \<and>
       (price b < price a \<or>
        price a = price b \<and> name a \<noteq> None \<and> name b \<noteq> None \<and>
          strcmp (the (name a)) (the (name b)) \<le> 0)"
  by (cases "name a"; cases "name b")
     (auto simp: compare_sign_def ship_compareTech_def sgn_if)

lemma compare_sign_trans:
  assumes "compare_sign cv a b \<in> {Some (-1), Some 0}"
    and "compare_sign cv b c \<in> {Some (-1), Some 0}"
  shows "compare_sign cv a c \<in> {Some (-1), Some 0}"
  using assms strcmp_trans [of "the (name a)" "the (name b)" "the (name c)"]
  unfolding compare_sign_le
  by auto

text \<open>
  C9. \<open>ship_compareTech\<close> orders the ships by class value descending (a ship of
  strictly higher class value sorts first, with the value -1, whatever the prices and
  the names), then price descending, then name ascending. Of the value it returns only
  the sign is fixed. The comparison is undefined exactly for two ships of equal class
  value and price one of which has no name. Swapping the arguments negates the sign,
  and "not after" is transitive, for all ships. For two ships that have names the
  sign is -1, 0 or 1: -1 exactly when the first ship comes before the second in the
  order of the three keys, and 0 exactly when the three keys agree.
\<close>

theorem ship_compareTech_total_order:
  "(cv (class' b) < cv (class' a) \<longrightarrow> ship_compareTech cv a b = Some (-1)) \<and>
   (ship_compareTech cv a b = None \<longleftrightarrow>
      cv (class' a) = cv (class' b) \<and> price a = price b \<and>
      (name a = None \<or> name b = None)) \<and>
   compare_sign cv b a = map_option uminus (compare_sign cv a b) \<and>
   (compare_sign cv a b \<in> {Some (-1), Some 0} \<and>
    compare_sign cv b c \<in> {Some (-1), Some 0} \<longrightarrow>
      compare_sign cv a c \<in> {Some (-1), Some 0}) \<and>
   (name a \<noteq> None \<and> name b \<noteq> None \<longrightarrow>
      compare_sign cv a b \<in> {Some (-1), Some 0, Some 1} \<and>
      (compare_sign cv a b = Some (-1)) = display_before cv a b \<and>
      (compare_sign cv a b = Some 0) = display_same cv a b)"
proof (intro conjI impI)
  assume "cv (class' b) < cv (class' a)"
  then show "ship_compareTech cv a b = Some (-1)"
    by (simp add: ship_compareTech_def)
next
  show "ship_compareTech cv a b = None \<longleftrightarrow>
      cv (class' a) = cv (class' b) \<and> price a = price b \<and>
      (name a = None \<or> name b = None)"
    by (rule compareTech_None_iff)
  show "compare_sign cv b a = map_option uminus (compare_sign cv a b)"
    by (rule compare_sign_swap)
next
  assume "compare_sign cv a b \<in> {Some (-1), Some 0} \<and>
    compare_sign cv b c \<in> {Some (-1), Some 0}"
  then show "compare_sign cv a c \<in> {Some (-1), Some 0}"
    using compare_sign_trans [of cv a b c] by blast
next
  assume n: "name a \<noteq> None \<and> name b \<noteq> None"
  show "compare_sign cv a b \<in> {Some (-1), Some 0, Some 1}"
    using n compare_sign_range by blast
  show "(compare_sign cv a b = Some (-1)) = display_before cv a b"
    using n compare_sign_before by blast
  show "(compare_sign cv a b = Some 0) = display_same cv a b"
    using n compare_sign_same by blast
qed

theorem ship_compareTech_total_order_witness:
  "sample_class_value (class' sample_yacht) < sample_class_value (class' sample_cruiser) \<and>
   price sample_cruiser < price sample_yacht \<and>
   name sample_cruiser = Some ''Kestrel'' \<and> name sample_yacht = Some ''Gawain'' \<and>
   name sample_yacht_2 = Some ''Kestrel'' \<and>
   ship_compareTech sample_class_value sample_cruiser sample_yacht = Some (-1) \<and>
   compare_sign sample_class_value sample_yacht sample_cruiser = Some 1 \<and>
   compare_sign sample_class_value sample_yacht sample_yacht = Some 0 \<and>
   ship_compareTech sample_class_value sample_yacht sample_yacht_2 = Some (-4) \<and>
   compare_sign sample_class_value sample_yacht sample_yacht_2 = Some (-1) \<and>
   compare_sign sample_class_value sample_cruiser sample_yacht_2 \<in> {Some (-1), Some 0}"
proof -
  have c: "sample_class_value (class' sample_yacht) < sample_class_value (class' sample_cruiser)"
    by (simp add: sample_yacht_def sample_cruiser_def sample_class_value_def)
  have k: "class' sample_yacht_2 = class' sample_yacht" "price sample_yacht_2 = price sample_yacht"
    by (simp_all add: sample_yacht_2_def)
  have p: "price sample_cruiser < price sample_yacht"
    by (simp add: sample_yacht_def sample_cruiser_def ship_parse_init_def)
  have nm: "name sample_cruiser = Some ''Kestrel''" "name sample_yacht = Some ''Gawain''"
    "name sample_yacht_2 = Some ''Kestrel''"
    by (simp_all add: sample_yacht_def sample_yacht_2_def sample_cruiser_def
        ship_parse_init_def xmlr_attr_def)
  have raw: "ship_compareTech sample_class_value sample_yacht sample_yacht_2 = Some (-4)"
    by (simp add: ship_compareTech_def k nm)
  have lx: "(cstr ''Gawain'', cstr ''Kestrel'') \<in> lexord byte_less"
    by (simp add: cstr_def byte_less_def)
  note t = ship_compareTech_total_order
    [of sample_class_value sample_yacht sample_cruiser sample_yacht]
  note t2 = ship_compareTech_total_order
    [of sample_class_value sample_yacht sample_yacht sample_yacht]
  note t3 = ship_compareTech_total_order
    [of sample_class_value sample_yacht_2 sample_yacht sample_yacht]
  note t4 = ship_compareTech_total_order
    [of sample_class_value sample_yacht sample_cruiser sample_yacht_2]
  have 1: "ship_compareTech sample_class_value sample_cruiser sample_yacht = Some (-1)"
    using t c by blast
  then have s1: "compare_sign sample_class_value sample_cruiser sample_yacht = Some (-1)"
    by (simp add: compare_sign_def)
  have 2: "compare_sign sample_class_value sample_yacht sample_cruiser = Some 1"
    using t s1 by simp
  have 3: "compare_sign sample_class_value sample_yacht sample_yacht = Some 0"
    using t2 nm by (simp add: display_same_def)
  have 4: "compare_sign sample_class_value sample_yacht sample_yacht_2 = Some (-1)"
    using t3 nm k lx by (simp add: display_before_def)
  have 5: "compare_sign sample_class_value sample_cruiser sample_yacht_2 \<in> {Some (-1), Some 0}"
    using t4 s1 4 by simp
  show ?thesis using c p nm 1 2 3 raw 4 5 by simp
qed

text \<open>
  C10. \<open>ship_basePrice\<close> returns the stored price when it is not negative and 0,
  after one warning, when it is negative; the value returned is never negative and
  the ship, its price included, is left as it was.
\<close>

theorem ship_basePrice_result:
  "ship_basePrice s =
     (s, (if price s < 0 then 0 else price s),
      (if price s < 0 then [WARN_negative_price] else [])) \<and>
   0 \<le> fst (snd (ship_basePrice s)) \<and>
   price (fst (ship_basePrice s)) = price s"
  by (simp add: ship_basePrice_def Let_def)

section \<open>Properties of the slot parser\<close>

text \<open>
  C3. A slot node without a size attribute gets size heavy exactly for the classes
  Bulk Carrier, Cruiser, Carrier and Mothership, medium exactly for Cruise Ship,
  Freighter, Destroyer, Corvette, Heavy Drone and Armoured Transport, and light exactly
  for the eight others, the null class among them; it always gets one of the three.
\<close>

theorem ship_parseSlot_default_size:
  assumes "xmlr_attr node ''size'' = None"
  shows "let sz = size' (slot (fst (ship_parseSlot e temp slot0 type node))) in
     (sz = OUTFIT_SLOT_SIZE_HEAVY \<longleftrightarrow>
        class' temp \<in> {SHIP_CLASS_BULK_CARRIER, SHIP_CLASS_CRUISER, SHIP_CLASS_CARRIER,
                        SHIP_CLASS_MOTHERSHIP}) \<and>
     (sz = OUTFIT_SLOT_SIZE_MEDIUM \<longleftrightarrow>
        class' temp \<in> {SHIP_CLASS_CRUISE_SHIP, SHIP_CLASS_FREIGHTER, SHIP_CLASS_DESTROYER,
                        SHIP_CLASS_CORVETTE, SHIP_CLASS_HEAVY_DRONE,
                        SHIP_CLASS_ARMOURED_TRANSPORT}) \<and>
     (sz = OUTFIT_SLOT_SIZE_LIGHT \<longleftrightarrow>
        class' temp \<in> {SHIP_CLASS_NULL, SHIP_CLASS_YACHT, SHIP_CLASS_LUXURY_YACHT,
                        SHIP_CLASS_COURIER, SHIP_CLASS_SCOUT, SHIP_CLASS_FIGHTER,
                        SHIP_CLASS_BOMBER, SHIP_CLASS_DRONE}) \<and>
     sz \<noteq> OUTFIT_SLOT_SIZE_NA"
  using assms
  by (cases "class' temp") (simp_all add: ship_parseSlot_def Let_def split_def)

theorem ship_parseSlot_default_size_witness:
  "xmlr_attr sample_slot_conflict ''size'' = None \<and>
   size' (slot (fst (ship_parseSlot sample_env sample_cruiser zero_slot OUTFIT_SLOT_WEAPON
     sample_slot_conflict))) = OUTFIT_SLOT_SIZE_HEAVY"
proof -
  have a: "xmlr_attr sample_slot_conflict ''size'' = None"
    by (simp add: xmlr_attr_def sample_slot_conflict_def)
  have c: "class' sample_cruiser = SHIP_CLASS_CRUISER"
    by (simp add: sample_cruiser_def)
  from ship_parseSlot_default_size
    [OF a, of sample_env sample_cruiser zero_slot OUTFIT_SLOT_WEAPON] a c
  show ?thesis by (simp add: Let_def)
qed

text \<open>
  C6. A slot parsed into a zeroed cell, as \<open>ship_parse\<close> does it, has \<open>required\<close> set
  (to 1) if and only if the node carries the attribute \<open>required\<close>, whatever the text
  of the attribute. (The parser only ever sets the field: in a cell that is not zeroed
  the field stays as it was when the attribute is absent.)
\<close>

theorem ship_parseSlot_required:
  "required (fst (ship_parseSlot e temp zero_slot type node)) =
     (if xmlr_attr node ''required'' = None then 0 else 1) \<and>
   required (fst (ship_parseSlot e temp slot0 type node)) =
     (if xmlr_attr node ''required'' = None then required slot0 else 1)"
  by (simp add: ship_parseSlot_def zero_slot_def Let_def split_def)

theorem ship_parseSlot_required_witness:
  "xmlr_attr sample_slot_weapon ''required'' = Some [] \<and>
   required (fst (ship_parseSlot sample_env sample_cruiser zero_slot OUTFIT_SLOT_WEAPON
      sample_slot_weapon)) = 1 \<and>
   xmlr_attr sample_slot_conflict ''required'' = None \<and>
   required (fst (ship_parseSlot sample_env sample_cruiser zero_slot OUTFIT_SLOT_WEAPON
      sample_slot_conflict)) = 0"
  using ship_parseSlot_required
      [of sample_env sample_cruiser OUTFIT_SLOT_WEAPON sample_slot_weapon zero_slot]
    ship_parseSlot_required
      [of sample_env sample_cruiser OUTFIT_SLOT_WEAPON sample_slot_conflict zero_slot]
  by (simp add: xmlr_attr_def sample_slot_weapon_def sample_slot_conflict_def)

text \<open>
  C7. For a weapon slot parsed into a zeroed cell, the mount's y is 0 when the node
  has no attribute \<open>y\<close>, and the warning about \<open>y\<close> is written exactly then; when the
  attribute is there, y is its value times \<open>M_SQRT2\<close>. x and h are the values of their
  attributes (0 when missing), never scaled.
\<close>

theorem ship_parseSlot_mount:
  "let r = ship_parseSlot e temp zero_slot OUTFIT_SLOT_WEAPON node in
     mount_y (mount (fst r)) =
       (case xmlr_attr node ''y'' of None \<Rightarrow> 0 | Some buf \<Rightarrow> atof e buf * M_SQRT2) \<and>
     mount_x (mount (fst r)) =
       (case xmlr_attr node ''x'' of None \<Rightarrow> 0 | Some buf \<Rightarrow> atof e buf) \<and>
     mount_h (mount (fst r)) =
       (case xmlr_attr node ''h'' of None \<Rightarrow> 0 | Some buf \<Rightarrow> atof e buf) \<and>
     (WARN_missing_mount (name temp) ''y'' \<in> set (snd r)) = (xmlr_attr node ''y'' = None)"
  by (cases "xmlr_attr node ''x''"; cases "xmlr_attr node ''y''"; cases "xmlr_attr node ''h''")
     (simp_all add: ship_parseSlot_def zero_slot_def Let_def split_def split: option.splits)

theorem ship_parseSlot_mount_witness:
  "xmlr_attr sample_slot_weapon ''y'' = None \<and>
   mount_y (mount (fst (ship_parseSlot sample_env sample_cruiser zero_slot OUTFIT_SLOT_WEAPON
      sample_slot_weapon))) = 0 \<and>
   mount_x (mount (fst (ship_parseSlot sample_env sample_cruiser zero_slot OUTFIT_SLOT_WEAPON
      sample_slot_weapon))) = 3 \<and>
   WARN_missing_mount (Some ''Kestrel'') ''y''
     \<in> set (snd (ship_parseSlot sample_env sample_cruiser zero_slot OUTFIT_SLOT_WEAPON
         sample_slot_weapon))"
  using ship_parseSlot_mount [of sample_env sample_cruiser sample_slot_weapon]
  by (simp add: Let_def xmlr_attr_def sample_slot_weapon_def sample_env_def dec_def
      sample_cruiser_def ship_parse_init_def)

text \<open>
  C5. For a slot node that carries both \<open>prop\<close> and \<open>prop_exc\<close>, parsed into a zeroed
  cell: the slot keeps the value of \<open>prop\<close>, \<open>exclusive\<close> stays 0, the value of
  \<open>prop_exc\<close> is dropped, and exactly one warning about the conflict is written. The
  warnings written are that one, preceded by one warning for each of \<open>x\<close>, \<open>y\<close>, \<open>h\<close>
  that a weapon slot lacks, and followed by one when the default outfit named by the
  node does not exist; so it is the only warning when there are none of those.
\<close>

theorem ship_parseSlot_both_prop:
  assumes "xmlr_attr node ''prop'' = Some p" and "xmlr_attr node ''prop_exc'' = Some q"
  shows "let r = ship_parseSlot e temp zero_slot type node in
     property (slot (fst r)) = Some p \<and>
     exclusive (slot (fst r)) = 0 \<and>
     snd r =
       (if type = OUTFIT_SLOT_WEAPON
        then map (WARN_missing_mount (name temp))
               (filter (\<lambda>a. xmlr_attr node a = None) [''x'', ''y'', ''h''])
        else []) @
       [WARN_both_prop (name temp)] @
       (case xml_get node of
          None \<Rightarrow> []
        | Some buf \<Rightarrow>
            if outfit_get e buf = None then [WARN_default_outfit (name temp) buf] else []) \<and>
     filter (\<lambda>w. \<exists>n. w = WARN_both_prop n) (snd r) = [WARN_both_prop (name temp)]"
  using assms
  by (cases "xmlr_attr node ''x''"; cases "xmlr_attr node ''y''"; cases "xmlr_attr node ''h''";
      cases "xml_get node")
     (simp_all add: ship_parseSlot_def zero_slot_def Let_def split_def)

theorem ship_parseSlot_both_prop_witness:
  "xmlr_attr sample_slot_conflict ''prop'' = Some ''engine'' \<and>
   xmlr_attr sample_slot_conflict ''prop_exc'' = Some ''hull'' \<and>
   property (slot (fst (ship_parseSlot sample_env sample_cruiser zero_slot
     OUTFIT_SLOT_STRUCTURE sample_slot_conflict))) = Some ''engine'' \<and>
   exclusive (slot (fst (ship_parseSlot sample_env sample_cruiser zero_slot
     OUTFIT_SLOT_STRUCTURE sample_slot_conflict))) = 0 \<and>
   snd (ship_parseSlot sample_env sample_cruiser zero_slot
     OUTFIT_SLOT_STRUCTURE sample_slot_conflict) = [WARN_both_prop (Some ''Kestrel'')]"
proof -
  have a: "xmlr_attr sample_slot_conflict ''prop'' = Some ''engine''"
    by (simp add: xmlr_attr_def sample_slot_conflict_def)
  have b: "xmlr_attr sample_slot_conflict ''prop_exc'' = Some ''hull''"
    by (simp add: xmlr_attr_def sample_slot_conflict_def)
  have g: "xml_get sample_slot_conflict = None"
    by (simp add: xml_get_def sample_slot_conflict_def)
  have n: "name sample_cruiser = Some ''Kestrel''"
    by (simp add: sample_cruiser_def ship_parse_init_def xmlr_attr_def)
  from ship_parseSlot_both_prop [OF a b, of sample_env sample_cruiser OUTFIT_SLOT_STRUCTURE]
  show ?thesis using a b g n by (simp add: Let_def)
qed

text \<open>
  "Exactly one warning is recorded" fails for a weapon slot that carries both
  attributes and lacks \<open>x\<close>, \<open>y\<close> and \<open>h\<close>: four warnings are written.
\<close>

theorem ship_parseSlot_both_prop_counterexample:
  "xmlr_attr sample_slot_conflict ''prop'' \<noteq> None \<and>
   xmlr_attr sample_slot_conflict ''prop_exc'' \<noteq> None \<and>
   snd (ship_parseSlot sample_env sample_cruiser zero_slot OUTFIT_SLOT_WEAPON
          sample_slot_conflict) =
     [WARN_missing_mount (Some ''Kestrel'') ''x'', WARN_missing_mount (Some ''Kestrel'') ''y'',
      WARN_missing_mount (Some ''Kestrel'') ''h'', WARN_both_prop (Some ''Kestrel'')] \<and>
   length (snd (ship_parseSlot sample_env sample_cruiser zero_slot OUTFIT_SLOT_WEAPON
          sample_slot_conflict)) \<noteq> 1"
  by (simp add: ship_parseSlot_def Let_def split_def xmlr_attr_def xml_get_def
      sample_slot_conflict_def sample_cruiser_def ship_parse_init_def)

section \<open>Lemmas about the ship parser\<close>

lemma snd_case_option:
  "snd (case v of None \<Rightarrow> a | Some b \<Rightarrow> f b) = (case v of None \<Rightarrow> snd a | Some b \<Rightarrow> snd (f b))"
  by (cases v) simp_all

lemma fst_case_option:
  "fst (case v of None \<Rightarrow> a | Some b \<Rightarrow> f b) = (case v of None \<Rightarrow> fst a | Some b \<Rightarrow> fst (f b))"
  by (cases v) simp_all

lemma parseSlot_cong:
  assumes "class' t1 = class' t2" and "name t1 = name t2"
  shows "ship_parseSlot e t1 = ship_parseSlot e t2"
  unfolding ship_parseSlot_def assms by (rule refl)

lemma parseSlot_warnings:
  "snd (ship_parseSlot e t s0 ty c) =
     (if ty = OUTFIT_SLOT_WEAPON
      then map (WARN_missing_mount (name t))
             (filter (\<lambda>a. xmlr_attr c a = None) [''x'', ''y'', ''h''])
      else []) @
     (if xmlr_attr c ''prop'' \<noteq> None \<and> xmlr_attr c ''prop_exc'' \<noteq> None
      then [WARN_both_prop (name t)] else []) @
     (case xml_get c of
        None \<Rightarrow> []
      | Some buf \<Rightarrow> if outfit_get e buf = None then [WARN_default_outfit (name t) buf] else [])"
  by (cases "xmlr_attr c ''x''"; cases "xmlr_attr c ''y''"; cases "xmlr_attr c ''h''";
      cases "xmlr_attr c ''prop''"; cases "xmlr_attr c ''prop_exc''"; cases "xml_get c")
     (simp_all add: ship_parseSlot_def Let_def split_def)

lemma parseSlot_no_missing_element:
  "\<not> list_ex is_missing_element (snd (ship_parseSlot e t s0 ty c))"
  by (auto simp: parseSlot_warnings list_ex_iff split: option.splits if_splits)

lemma movement_frame:
  "same_ident t (fst (ship_parse_movement e t cs)) \<and>
   same_outfits t (fst (ship_parse_movement e t cs))"
  by (induction cs arbitrary: t) (simp_all add: split_def Let_def same_ident_def same_outfits_def)

lemma health_frame:
  "same_ident t (fst (ship_parse_health e t cs)) \<and>
   same_outfits t (fst (ship_parse_health e t cs)) \<and>
   thrust (fst (ship_parse_health e t cs)) = thrust t"
  by (induction cs arbitrary: t) (simp_all add: split_def Let_def same_ident_def same_outfits_def)

lemma characteristics_frame:
  "same_ident t (fst (ship_parse_characteristics e t cs)) \<and>
   same_outfits t (fst (ship_parse_characteristics e t cs)) \<and>
   thrust (fst (ship_parse_characteristics e t cs)) = thrust t"
  by (induction cs arbitrary: t) (simp_all add: split_def Let_def same_ident_def same_outfits_def)

lemma stats_list_frame:
  "same_ident t (fst (ship_parse_stats_list e t cs)) \<and>
   same_outfits t (fst (ship_parse_stats_list e t cs)) \<and>
   thrust (fst (ship_parse_stats_list e t cs)) = thrust t"
  by (induction cs arbitrary: t)
     (simp_all add: split_def Let_def same_ident_def same_outfits_def split: option.splits)

lemma isNode_distinct [simp]:
  "xml_isNode c a \<Longrightarrow> a \<noteq> b \<Longrightarrow> \<not> xml_isNode c b"
  by (auto simp: xml_isNode_def)

lemma slots_count_result:
  "ship_parse_slots_count t cs =
     (t\<lparr> outfit_nstructure := outfit_nstructure t + int (length (slot_nodes ''structure'' cs)),
         outfit_nutility := outfit_nutility t + int (length (slot_nodes ''utility'' cs)),
         outfit_nweapon := outfit_nweapon t + int (length (slot_nodes ''weapon'' cs)) \<rparr>,
      map (\<lambda>c. WARN_unknown_slot (name t) (nname c))
        (filter (\<lambda>c. ntype c = XML_NODE_START \<and> \<not> is_slot_node c) cs))"
proof (induction cs arbitrary: t)
  case Nil
  show ?case by (simp add: slot_nodes_def)
next
  case (Cons c cs)
  show ?case
    by (simp add: Cons.IH slot_nodes_def is_slot_node_def xml_isNode_def Let_def)
qed

lemma take_update_step:
  assumes "l < length S"
  shows "take (Suc l) (S[l := s]) @ xs @ drop (Suc (l + n)) (S[l := s]) =
         take l S @ (s # xs) @ drop (Suc (l + n)) S"
  using assms by (simp add: take_Suc_conv_app_nth)

lemma fits_skip: "\<not> xml_isNode c s \<Longrightarrow> fits s l (c # cs) S = fits s l cs S"
  by (simp add: fits_def slot_nodes_def)

lemma filled_skip: "\<not> xml_isNode c s \<Longrightarrow> filled e t ty s l (c # cs) S = filled e t ty s l cs S"
  by (simp add: filled_def slot_nodes_def)

lemma fits_step:
  assumes "xml_isNode c s" and "fits s l (c # cs) S"
  shows "fits s (Suc l) cs (S[l := v]) \<and> l < length S \<and> S ! l = zero_slot"
  using assms by (auto simp: fits_def slot_nodes_def)

lemma filled_step:
  assumes "xml_isNode c s" and "l < length S"
  shows "filled e t ty s (Suc l) cs (S[l := fst (ship_parseSlot e t zero_slot ty c)]) =
         filled e t ty s l (c # cs) S"
  using assms take_update_step [of l S]
  by (simp add: filled_def slot_nodes_def)

lemma filled_cong:
  "class' t1 = class' t2 \<Longrightarrow> name t1 = name t2 \<Longrightarrow> filled e t1 = filled e t2"
  by (intro ext) (simp add: filled_def parseSlot_cong [of t1 t2])

lemma slots_fill_result:
  assumes "fits ''structure'' l cs (outfit_structure t)"
    and "fits ''utility'' m cs (outfit_utility t)"
    and "fits ''weapon'' h cs (outfit_weapon t)"
  shows "ship_parse_slots_fill e t l m h cs =
     (t\<lparr> outfit_structure :=
           filled e t OUTFIT_SLOT_STRUCTURE ''structure'' l cs (outfit_structure t),
         outfit_utility :=
           filled e t OUTFIT_SLOT_UTILITY ''utility'' m cs (outfit_utility t),
         outfit_weapon :=
           filled e t OUTFIT_SLOT_WEAPON ''weapon'' h cs (outfit_weapon t) \<rparr>,
      concat (map (\<lambda>c. snd (ship_parseSlot e t zero_slot (slot_type_of c) c))
        (filter is_slot_node cs)))"
  using assms
proof (induction cs arbitrary: t l m h)
  case Nil
  show ?case by (simp add: filled_def slot_nodes_def)
next
  case (Cons c cs)
  consider (skip) "\<not> is_slot_node c"
    | (s) "xml_isNode c ''structure''"
    | (u) "xml_isNode c ''utility''"
    | (w) "xml_isNode c ''weapon''"
    by (auto simp: is_slot_node_def)
  then show ?case
  proof cases
    case skip
    then have n: "\<not> xml_isNode c ''structure''" "\<not> xml_isNode c ''utility''"
      "\<not> xml_isNode c ''weapon''"
      by (auto simp: is_slot_node_def)
    have f: "fits ''structure'' l cs (outfit_structure t)"
      "fits ''utility'' m cs (outfit_utility t)" "fits ''weapon'' h cs (outfit_weapon t)"
      using Cons.prems n by (simp_all add: fits_skip)
    show ?thesis
      using n skip Cons.IH [OF f] by (auto simp: filled_skip xml_isNode_def)
  next
    case s
    then have n: "\<not> xml_isNode c ''utility''" "\<not> xml_isNode c ''weapon''"
      by (auto simp: xml_isNode_def)
    define v where "v = fst (ship_parseSlot e t zero_slot OUTFIT_SLOT_STRUCTURE c)"
    define t1 where "t1 = t\<lparr>outfit_structure := (outfit_structure t)[l := v]\<rparr>"
    have fs: "fits ''structure'' (Suc l) cs (outfit_structure t1)"
      and ll: "l < length (outfit_structure t)" and z: "outfit_structure t ! l = zero_slot"
      using fits_step [OF s Cons.prems(1), of v] by (simp_all add: t1_def)
    have f: "fits ''utility'' m cs (outfit_utility t1)" "fits ''weapon'' h cs (outfit_weapon t1)"
      using Cons.prems n by (simp_all add: fits_skip t1_def)
    have c: "filled e t1 = filled e t" "ship_parseSlot e t1 = ship_parseSlot e t"
      using filled_cong [of t1 t e] parseSlot_cong [of t1 t e] by (simp_all add: t1_def)
    have ty: "slot_type_of c = OUTFIT_SLOT_STRUCTURE" "is_slot_node c"
      using s by (simp_all add: slot_type_of_def is_slot_node_def xml_isNode_def)
    have step: "ship_parse_slots_fill e t l m h (c # cs) =
        (fst (ship_parse_slots_fill e t1 (Suc l) m h cs),
         snd (ship_parseSlot e t zero_slot OUTFIT_SLOT_STRUCTURE c) @
         snd (ship_parse_slots_fill e t1 (Suc l) m h cs))"
      using s z by (simp add: split_def Let_def t1_def v_def xml_isNode_def)
    have ih: "ship_parse_slots_fill e t1 (Suc l) m h cs =
       (t\<lparr> outfit_structure :=
             filled e t OUTFIT_SLOT_STRUCTURE ''structure'' l (c # cs) (outfit_structure t),
           outfit_utility :=
             filled e t OUTFIT_SLOT_UTILITY ''utility'' m (c # cs) (outfit_utility t),
           outfit_weapon :=
             filled e t OUTFIT_SLOT_WEAPON ''weapon'' h (c # cs) (outfit_weapon t) \<rparr>,
        concat (map (\<lambda>c. snd (ship_parseSlot e t zero_slot (slot_type_of c) c))
          (filter is_slot_node cs)))"
      using Cons.IH [OF fs f] c
        filled_step [OF s ll, of e t OUTFIT_SLOT_STRUCTURE cs]
        filled_skip [OF n(1), of e t] filled_skip [OF n(2), of e t]
      by (simp add: t1_def v_def)
    show ?thesis
      unfolding step ih using ty by simp
  next
    case u
    then have n: "\<not> xml_isNode c ''structure''" "\<not> xml_isNode c ''weapon''"
      by (auto simp: xml_isNode_def)
    define v where "v = fst (ship_parseSlot e t zero_slot OUTFIT_SLOT_UTILITY c)"
    define t1 where "t1 = t\<lparr>outfit_utility := (outfit_utility t)[m := v]\<rparr>"
    have fs: "fits ''utility'' (Suc m) cs (outfit_utility t1)"
      and ll: "m < length (outfit_utility t)" and z: "outfit_utility t ! m = zero_slot"
      using fits_step [OF u Cons.prems(2), of v] by (simp_all add: t1_def)
    have f: "fits ''structure'' l cs (outfit_structure t1)" "fits ''weapon'' h cs (outfit_weapon t1)"
      using Cons.prems n by (simp_all add: fits_skip t1_def)
    have c: "filled e t1 = filled e t" "ship_parseSlot e t1 = ship_parseSlot e t"
      using filled_cong [of t1 t e] parseSlot_cong [of t1 t e] by (simp_all add: t1_def)
    have ty: "slot_type_of c = OUTFIT_SLOT_UTILITY" "is_slot_node c"
      using u by (simp_all add: slot_type_of_def is_slot_node_def xml_isNode_def)
    have step: "ship_parse_slots_fill e t l m h (c # cs) =
        (fst (ship_parse_slots_fill e t1 l (Suc m) h cs),
         snd (ship_parseSlot e t zero_slot OUTFIT_SLOT_UTILITY c) @
         snd (ship_parse_slots_fill e t1 l (Suc m) h cs))"
      using u z by (simp add: split_def Let_def t1_def v_def xml_isNode_def)
    have ih: "ship_parse_slots_fill e t1 l (Suc m) h cs =
       (t\<lparr> outfit_structure :=
             filled e t OUTFIT_SLOT_STRUCTURE ''structure'' l (c # cs) (outfit_structure t),
           outfit_utility :=
             filled e t OUTFIT_SLOT_UTILITY ''utility'' m (c # cs) (outfit_utility t),
           outfit_weapon :=
             filled e t OUTFIT_SLOT_WEAPON ''weapon'' h (c # cs) (outfit_weapon t) \<rparr>,
        concat (map (\<lambda>c. snd (ship_parseSlot e t zero_slot (slot_type_of c) c))
          (filter is_slot_node cs)))"
      using Cons.IH [OF f(1) fs f(2)] c
        filled_step [OF u ll, of e t OUTFIT_SLOT_UTILITY cs]
        filled_skip [OF n(1), of e t] filled_skip [OF n(2), of e t]
      by (simp add: t1_def v_def)
    show ?thesis
      unfolding step ih using ty by simp
  next
    case w
    then have n: "\<not> xml_isNode c ''structure''" "\<not> xml_isNode c ''utility''"
      by (auto simp: xml_isNode_def)
    define v where "v = fst (ship_parseSlot e t zero_slot OUTFIT_SLOT_WEAPON c)"
    define t1 where "t1 = t\<lparr>outfit_weapon := (outfit_weapon t)[h := v]\<rparr>"
    have fs: "fits ''weapon'' (Suc h) cs (outfit_weapon t1)"
      and ll: "h < length (outfit_weapon t)" and z: "outfit_weapon t ! h = zero_slot"
      using fits_step [OF w Cons.prems(3), of v] by (simp_all add: t1_def)
    have f: "fits ''structure'' l cs (outfit_structure t1)" "fits ''utility'' m cs (outfit_utility t1)"
      using Cons.prems n by (simp_all add: fits_skip t1_def)
    have c: "filled e t1 = filled e t" "ship_parseSlot e t1 = ship_parseSlot e t"
      using filled_cong [of t1 t e] parseSlot_cong [of t1 t e] by (simp_all add: t1_def)
    have ty: "slot_type_of c = OUTFIT_SLOT_WEAPON" "is_slot_node c"
      using w by (simp_all add: slot_type_of_def is_slot_node_def xml_isNode_def)
    have step: "ship_parse_slots_fill e t l m h (c # cs) =
        (fst (ship_parse_slots_fill e t1 l m (Suc h) cs),
         snd (ship_parseSlot e t zero_slot OUTFIT_SLOT_WEAPON c) @
         snd (ship_parse_slots_fill e t1 l m (Suc h) cs))"
      using w z by (simp add: split_def Let_def t1_def v_def xml_isNode_def)
    have ih: "ship_parse_slots_fill e t1 l m (Suc h) cs =
       (t\<lparr> outfit_structure :=
             filled e t OUTFIT_SLOT_STRUCTURE ''structure'' l (c # cs) (outfit_structure t),
           outfit_utility :=
             filled e t OUTFIT_SLOT_UTILITY ''utility'' m (c # cs) (outfit_utility t),
           outfit_weapon :=
             filled e t OUTFIT_SLOT_WEAPON ''weapon'' h (c # cs) (outfit_weapon t) \<rparr>,
        concat (map (\<lambda>c. snd (ship_parseSlot e t zero_slot (slot_type_of c) c))
          (filter is_slot_node cs)))"
      using Cons.IH [OF f fs] c
        filled_step [OF w ll, of e t OUTFIT_SLOT_WEAPON cs]
        filled_skip [OF n(1), of e t] filled_skip [OF n(2), of e t]
      by (simp add: t1_def v_def)
    show ?thesis
      unfolding step ih using ty by simp
  qed
qed

lemma fits_replicate:
  "length (slot_nodes s cs) \<le> k \<Longrightarrow> fits s 0 cs (replicate k zero_slot)"
  by (simp add: fits_def)

lemma filled_replicate:
  "filled e t ty s 0 cs (replicate k zero_slot) =
     map (\<lambda>c. fst (ship_parseSlot e t zero_slot ty c)) (slot_nodes s cs) @
     replicate (k - length (slot_nodes s cs)) zero_slot"
  by (simp add: filled_def)

lemma slots_block_result:
  assumes "0 \<le> outfit_nstructure t" and "0 \<le> outfit_nutility t" and "0 \<le> outfit_nweapon t"
  shows "ship_parse_slots e t node =
     (t\<lparr> outfit_nstructure :=
           outfit_nstructure t + int (length (slot_nodes ''structure'' (nchildren node))),
         outfit_nutility :=
           outfit_nutility t + int (length (slot_nodes ''utility'' (nchildren node))),
         outfit_nweapon :=
           outfit_nweapon t + int (length (slot_nodes ''weapon'' (nchildren node))),
         outfit_structure :=
           map (\<lambda>c. fst (ship_parseSlot e t zero_slot OUTFIT_SLOT_STRUCTURE c))
             (slot_nodes ''structure'' (nchildren node)) @
           replicate (nat (outfit_nstructure t)) zero_slot,
         outfit_utility :=
           map (\<lambda>c. fst (ship_parseSlot e t zero_slot OUTFIT_SLOT_UTILITY c))
             (slot_nodes ''utility'' (nchildren node)) @
           replicate (nat (outfit_nutility t)) zero_slot,
         outfit_weapon :=
           map (\<lambda>c. fst (ship_parseSlot e t zero_slot OUTFIT_SLOT_WEAPON c))
             (slot_nodes ''weapon'' (nchildren node)) @
           replicate (nat (outfit_nweapon t)) zero_slot \<rparr>,
      map (\<lambda>c. WARN_unknown_slot (name t) (nname c))
        (filter (\<lambda>c. ntype c = XML_NODE_START \<and> \<not> is_slot_node c) (nchildren node)) @
      concat (map (\<lambda>c. snd (ship_parseSlot e t zero_slot (slot_type_of c) c))
        (filter is_slot_node (nchildren node))))"
proof -
  define cs where "cs = nchildren node"
  define t1 where "t1 = fst (ship_parse_slots_count t cs)"
  define t2 where "t2 = t1\<lparr>
      outfit_structure := replicate (nat (outfit_nstructure t1)) zero_slot,
      outfit_utility := replicate (nat (outfit_nutility t1)) zero_slot,
      outfit_weapon := replicate (nat (outfit_nweapon t1)) zero_slot \<rparr>"
  have n1: "nat (outfit_nstructure t1) = nat (outfit_nstructure t) + length (slot_nodes ''structure'' cs)"
    "nat (outfit_nutility t1) = nat (outfit_nutility t) + length (slot_nodes ''utility'' cs)"
    "nat (outfit_nweapon t1) = nat (outfit_nweapon t) + length (slot_nodes ''weapon'' cs)"
    using assms by (simp_all add: t1_def slots_count_result nat_add_distrib)
  have f: "fits ''structure'' 0 cs (outfit_structure t2)"
    "fits ''utility'' 0 cs (outfit_utility t2)" "fits ''weapon'' 0 cs (outfit_weapon t2)"
    by (simp_all add: t2_def n1 fits_replicate)
  have c: "filled e t2 = filled e t" "ship_parseSlot e t2 = ship_parseSlot e t"
    using filled_cong [of t2 t e] parseSlot_cong [of t2 t e]
    by (simp_all add: t2_def t1_def slots_count_result)
  have "ship_parse_slots e t node =
      (fst (ship_parse_slots_fill e t2 0 0 0 cs),
       snd (ship_parse_slots_count t cs) @ snd (ship_parse_slots_fill e t2 0 0 0 cs))"
    by (simp add: ship_parse_slots_def split_def Let_def t2_def t1_def cs_def)
  then show ?thesis
    unfolding slots_fill_result [OF f] c
    by (simp add: t2_def n1 filled_replicate t1_def slots_count_result cs_def)
qed

lemma slots_fill_frame:
  "same_ident t (fst (ship_parse_slots_fill e t l m h cs)) \<and>
   thrust (fst (ship_parse_slots_fill e t l m h cs)) = thrust t \<and>
   outfit_nstructure (fst (ship_parse_slots_fill e t l m h cs)) = outfit_nstructure t \<and>
   outfit_nutility (fst (ship_parse_slots_fill e t l m h cs)) = outfit_nutility t \<and>
   outfit_nweapon (fst (ship_parse_slots_fill e t l m h cs)) = outfit_nweapon t"
  by (induction cs arbitrary: t l m h) (simp_all add: split_def Let_def same_ident_def)

lemma slots_block_frame:
  "same_ident t (fst (ship_parse_slots e t node)) \<and>
   thrust (fst (ship_parse_slots e t node)) = thrust t"
proof -
  define t2 where "t2 = (let t1 = fst (ship_parse_slots_count t (nchildren node)) in t1\<lparr>
      outfit_structure := replicate (nat (outfit_nstructure t1)) zero_slot,
      outfit_utility := replicate (nat (outfit_nutility t1)) zero_slot,
      outfit_weapon := replicate (nat (outfit_nweapon t1)) zero_slot \<rparr>)"
  have a: "fst (ship_parse_slots e t node) = fst (ship_parse_slots_fill e t2 0 0 0 (nchildren node))"
    by (simp add: ship_parse_slots_def split_def Let_def t2_def)
  have b: "name t2 = name t" "class' t2 = class' t" "thrust t2 = thrust t"
    by (simp_all add: t2_def Let_def slots_count_result)
  show ?thesis
    using slots_fill_frame [of t2 e 0 0 0 "nchildren node"] by (simp add: a b same_ident_def)
qed

lemma stats_block_frame:
  "same_ident t (fst (ship_parse_stats e t node)) \<and>
   same_outfits t (fst (ship_parse_stats e t node)) \<and>
   thrust (fst (ship_parse_stats e t node)) = thrust t"
  using stats_list_frame [of t e "nchildren node"]
  by (simp add: ship_parse_stats_def split_def Let_def same_ident_def same_outfits_def)

lemma loadGFX_frame:
  "same_ident t (fst (ship_loadGFX e t buf sx sy)) \<and>
   same_outfits t (fst (ship_loadGFX e t buf sx sy)) \<and>
   thrust (fst (ship_loadGFX e t buf sx sy)) = thrust t"
  by (simp add: ship_loadGFX_def split_def Let_def same_ident_def same_outfits_def)

lemma movement_thrust:
  "\<not> list_ex (\<lambda>cur. xml_isNode cur ''thrust'') cs \<Longrightarrow>
   thrust (fst (ship_parse_movement e t cs)) = thrust t"
  by (induction cs arbitrary: t) (simp_all add: split_def Let_def)

lemma node_ident: "same_ident t (fst (ship_parse_node e t node))"
  using movement_frame [of t e "nchildren node"] health_frame [of t e "nchildren node"]
    characteristics_frame [of t e "nchildren node"] slots_block_frame [of t e node]
    stats_block_frame [of t e node] loadGFX_frame [of t e]
  by (simp add: ship_parse_node_def Let_def same_ident_def split: option.splits)

lemma node_outfits:
  "\<not> xml_isNode node ''slots'' \<Longrightarrow> same_outfits t (fst (ship_parse_node e t node))"
  using movement_frame [of t e "nchildren node"] health_frame [of t e "nchildren node"]
    characteristics_frame [of t e "nchildren node"]
    stats_block_frame [of t e node] loadGFX_frame [of t e]
  by (simp add: ship_parse_node_def Let_def same_outfits_def split: option.splits)

lemma node_thrust:
  "\<not> (xml_isNode node ''movement'' \<and>
       list_ex (\<lambda>cur. xml_isNode cur ''thrust'') (nchildren node)) \<Longrightarrow>
   thrust (fst (ship_parse_node e t node)) = thrust t"
  using movement_thrust [of "nchildren node" e t] health_frame [of t e "nchildren node"]
    characteristics_frame [of t e "nchildren node"] slots_block_frame [of t e node]
    stats_block_frame [of t e node] loadGFX_frame [of t e]
  by (auto simp add: ship_parse_node_def Let_def split: option.splits)

lemma nodes_ident: "same_ident t (fst (ship_parse_nodes e t cs))"
proof (induction cs arbitrary: t)
  case Nil
  show ?case by (simp add: same_ident_def)
next
  case (Cons c cs)
  show ?case
    using node_ident [of t e c] Cons.IH [of "fst (ship_parse_node e t c)"] Cons.IH [of t]
    by (simp add: split_def Let_def same_ident_def)
qed

lemma nodes_outfits:
  "\<not> list_ex (\<lambda>c. xml_isNode c ''slots'') cs \<Longrightarrow> same_outfits t (fst (ship_parse_nodes e t cs))"
proof (induction cs arbitrary: t)
  case Nil
  show ?case by (simp add: same_outfits_def)
next
  case (Cons c cs)
  then have n: "\<not> xml_isNode c ''slots''" "\<not> list_ex (\<lambda>c. xml_isNode c ''slots'') cs"
    by simp_all
  show ?case
    using node_outfits [OF n(1), of t e] Cons.IH [OF n(2), of "fst (ship_parse_node e t c)"]
      Cons.IH [OF n(2), of t]
    by (simp add: split_def Let_def same_outfits_def)
qed

lemma nodes_thrust:
  "\<not> list_ex (\<lambda>node. xml_isNode node ''movement'' \<and>
       list_ex (\<lambda>cur. xml_isNode cur ''thrust'') (nchildren node)) cs \<Longrightarrow>
   thrust (fst (ship_parse_nodes e t cs)) = thrust t"
proof (induction cs arbitrary: t)
  case Nil
  show ?case by simp
next
  case (Cons c cs)
  then have n: "\<not> (xml_isNode c ''movement'' \<and>
       list_ex (\<lambda>cur. xml_isNode cur ''thrust'') (nchildren c))"
    "\<not> list_ex (\<lambda>node. xml_isNode node ''movement'' \<and>
       list_ex (\<lambda>cur. xml_isNode cur ''thrust'') (nchildren node)) cs"
    by simp_all
  show ?case
    using node_thrust [OF n(1), of e t] Cons.IH [OF n(2), of "fst (ship_parse_node e t c)"]
      Cons.IH [OF n(2), of t]
    by (simp add: split_def Let_def)
qed

lemma nodes_append:
  "ship_parse_nodes e t (xs @ ys) =
     (fst (ship_parse_nodes e (fst (ship_parse_nodes e t xs)) ys),
      snd (ship_parse_nodes e t xs) @ snd (ship_parse_nodes e (fst (ship_parse_nodes e t xs)) ys))"
  by (induction xs arbitrary: t) (simp_all add: split_def Let_def)

lemma class_None_iff:
  "ship_parse_class t cs = None \<longleftrightarrow>
   list_ex (\<lambda>node. xml_isNode node ''class'' \<and> xml_get node = None) cs"
  by (induction cs arbitrary: t) (auto simp: xml_isNode_def split: option.splits)

lemma class_frame:
  "ship_parse_class t cs = Some t' \<Longrightarrow> t' = t\<lparr>class' := class' t'\<rparr>"
proof (induction cs arbitrary: t)
  case Nil
  then show ?case by simp
next
  case (Cons c cs)
  show ?case
  proof (cases "xml_isNode c ''class''")
    case True
    then obtain str where s: "xml_get c = Some str"
      and r: "ship_parse_class (t\<lparr>class' := ship_classFromString str\<rparr>) cs = Some t'"
      using Cons.prems by (auto simp: xml_isNode_def split: option.splits)
    show ?thesis using Cons.IH [OF r] by simp
  next
    case False
    then have "ship_parse_class t cs = Some t'"
      using Cons.prems by (auto simp: xml_isNode_def split: if_splits)
    then show ?thesis by (rule Cons.IH)
  qed
qed

lemma movement_events: "\<not> list_ex is_missing_element (snd (ship_parse_movement e t cs))"
  by (induction cs arbitrary: t) (simp_all add: split_def Let_def)

lemma health_events: "\<not> list_ex is_missing_element (snd (ship_parse_health e t cs))"
  by (induction cs arbitrary: t) (simp_all add: split_def Let_def)

lemma characteristics_events:
  "\<not> list_ex is_missing_element (snd (ship_parse_characteristics e t cs))"
  by (induction cs arbitrary: t) (simp_all add: split_def Let_def)

lemma slots_count_events: "\<not> list_ex is_missing_element (snd (ship_parse_slots_count t cs))"
  by (induction cs arbitrary: t) (simp_all add: split_def Let_def)

lemma slots_fill_events:
  "\<not> list_ex is_missing_element (snd (ship_parse_slots_fill e t l m h cs))"
  by (induction cs arbitrary: t l m h)
     (simp_all add: split_def Let_def parseSlot_no_missing_element)

lemma stats_list_events: "\<not> list_ex is_missing_element (snd (ship_parse_stats_list e t cs))"
  by (induction cs arbitrary: t) (simp_all add: split_def Let_def split: option.splits)

lemma slots_block_events: "\<not> list_ex is_missing_element (snd (ship_parse_slots e t node))"
  by (simp add: ship_parse_slots_def split_def Let_def slots_count_events slots_fill_events)

lemma stats_block_events: "\<not> list_ex is_missing_element (snd (ship_parse_stats e t node))"
  by (simp add: ship_parse_stats_def split_def Let_def stats_list_events)

lemma loadGFX_events: "\<not> list_ex is_missing_element (snd (ship_loadGFX e t buf sx sy))"
  by (simp add: ship_loadGFX_def split_def Let_def list_ex_iff)

lemma node_events: "\<not> list_ex is_missing_element (snd (ship_parse_node e t node))"
  by (simp add: ship_parse_node_def movement_events health_events characteristics_events
      slots_block_events stats_block_events loadGFX_events split: option.splits)

lemma nodes_events: "\<not> list_ex is_missing_element (snd (ship_parse_nodes e t cs))"
  by (induction cs arbitrary: t) (simp_all add: split_def Let_def node_events)

section \<open>The thrust of a ship that declares none\<close>

lemma validate_iff:
  "WARN_missing_element n f \<in> set (ship_validate s) \<longleftrightarrow>
   n = name s \<and> (True, f) \<in> set (ship_validator_tests s)"
  by (auto simp: ship_validate_def)

lemma validate_thrust:
  "(True, ''thrust'') \<in> set (ship_validator_tests s) \<longleftrightarrow> thrust s = -1"
  by (simp add: ship_validator_tests_def)

lemma missing_element_only:
  "\<not> list_ex is_missing_element ws \<Longrightarrow> WARN_missing_element n f \<notin> set ws"
  by (auto simp: list_ex_iff)

lemma ship_parse_Some:
  assumes "ship_parse e parent = Some (s, ws)"
  obtains temp1 where
    "ship_parse_class (ship_parse_init e parent) (nchildren parent) = Some temp1"
    "s = ship_postprocess (fst (ship_parse_nodes e temp1 (nchildren parent)))"
    "ws = CALL_ss_statsInit #
       (if xmlr_attr parent ''name'' = None then [WARN_no_name] else []) @
       snd (ship_parse_nodes e temp1 (nchildren parent)) @ ship_validate s"
  using assms
  by (auto simp: ship_parse_def Let_def split_def ship_parse_init_def split: option.splits)

lemma postprocess_frame:
  "same_ident t (ship_postprocess t) \<and> same_outfits t (ship_postprocess t) \<and>
   mass (ship_postprocess t) = mass t \<and> thrust (ship_postprocess t) = thrust t * mass t"
  by (simp add: ship_postprocess_def Let_def same_ident_def same_outfits_def)

text \<open>
  C1. For a ship element that declares no thrust (no \<open>thrust\<close> element in a
  \<open>movement\<close> block), the thrust stored after post processing is -1 times the mass.
  The validator tests the stored thrust against -1 after that multiplication, so the
  warning about \<open>thrust\<close> is written exactly when the mass is 1, and for no other ship
  without a thrust.
\<close>

theorem ship_parse_thrust_unset:
  assumes "ship_parse e parent = Some (s, ws)" and "\<not> declares_thrust parent"
  shows "thrust s = -1 * mass s \<and>
         ((\<exists>n. WARN_missing_element n ''thrust'' \<in> set ws) \<longleftrightarrow> mass s = 1)"
proof -
  obtain temp1 where
    c: "ship_parse_class (ship_parse_init e parent) (nchildren parent) = Some temp1"
    and s: "s = ship_postprocess (fst (ship_parse_nodes e temp1 (nchildren parent)))"
    and ws: "ws = CALL_ss_statsInit #
       (if xmlr_attr parent ''name'' = None then [WARN_no_name] else []) @
       snd (ship_parse_nodes e temp1 (nchildren parent)) @ ship_validate s"
    using assms(1) by (rule ship_parse_Some)
  define temp2 where "temp2 = fst (ship_parse_nodes e temp1 (nchildren parent))"
  have "thrust temp1 = thrust (ship_parse_init e parent)"
    using arg_cong [OF class_frame [OF c], of thrust] by simp
  then have t1: "thrust temp1 = -1"
    by (simp add: ship_parse_init_def)
  have t2: "thrust temp2 = -1"
    using nodes_thrust [of "nchildren parent" e temp1] assms(2) t1
    by (simp add: declares_thrust_def temp2_def)
  have t: "thrust s = -1 * mass s" and m: "mass s = mass temp2"
    using postprocess_frame [of temp2] t2 by (simp_all add: s temp2_def)
  have "(\<exists>n. WARN_missing_element n ''thrust'' \<in> set ws) \<longleftrightarrow>
        (\<exists>n. WARN_missing_element n ''thrust'' \<in> set (ship_validate s))"
    using missing_element_only [OF nodes_events [of e temp1 "nchildren parent"]]
    by (auto simp: ws)
  also have "\<dots> \<longleftrightarrow> thrust s = -1"
    by (simp add: validate_iff validate_thrust)
  also have "\<dots> \<longleftrightarrow> mass s = 1"
    using t by simp
  finally show ?thesis using t by simp
qed

lemma sample_no_thrust_parse:
  "ship_parse sample_env sample_ship_no_thrust \<noteq> None \<and>
   mass (fst (the (ship_parse sample_env sample_ship_no_thrust))) = 10 \<and>
   name (fst (the (ship_parse sample_env sample_ship_no_thrust))) = Some ''Llama''"
  by (simp add: ship_parse_def ship_parse_init_def ship_parse_node_def sample_ship_no_thrust_def
      xml_elem_def xml_text_def xml_isNode_def XML_NODE_START_def xml_get_def xmlr_attr_def
      ship_postprocess_def Let_def split_def xml_getFloat_def sample_env_def dec_def)

theorem ship_parse_thrust_unset_witness:
  "\<not> declares_thrust sample_ship_no_thrust \<and>
   (case ship_parse sample_env sample_ship_no_thrust of
      None \<Rightarrow> False
    | Some (s, ws) \<Rightarrow>
        mass s = 10 \<and> thrust s = -10 \<and>
        WARN_missing_element (Some ''Llama'') ''thrust'' \<notin> set ws)"
proof -
  have d: "\<not> declares_thrust sample_ship_no_thrust"
    by (simp add: declares_thrust_def sample_ship_no_thrust_def xml_elem_def xml_text_def
        xml_isNode_def)
  obtain s ws where p: "ship_parse sample_env sample_ship_no_thrust = Some (s, ws)"
    using sample_no_thrust_parse by fastforce
  have m: "mass s = 10"
    using sample_no_thrust_parse p by simp
  show ?thesis
    using ship_parse_thrust_unset [OF p d] d p m by auto
qed

section \<open>The slot arrays\<close>

lemma node_slots:
  "xml_isNode node ''slots'' \<Longrightarrow> ship_parse_node e t node = ship_parse_slots e t node"
  by (simp add: ship_parse_node_def xml_isNode_def)

lemma class_init_outfits:
  assumes "ship_parse_class (ship_parse_init e parent) cs = Some temp1"
  shows "outfit_nstructure temp1 = 0 \<and> outfit_nutility temp1 = 0 \<and> outfit_nweapon temp1 = 0 \<and>
         name temp1 = xmlr_attr parent ''name''"
proof -
  have "temp1 = (ship_parse_init e parent)\<lparr>class' := class' temp1\<rparr>"
    using assms by (rule class_frame)
  note f = this
  have "outfit_nstructure temp1 = outfit_nstructure (ship_parse_init e parent)"
    "outfit_nutility temp1 = outfit_nutility (ship_parse_init e parent)"
    "outfit_nweapon temp1 = outfit_nweapon (ship_parse_init e parent)"
    "name temp1 = name (ship_parse_init e parent)"
    using arg_cong [OF f, of outfit_nstructure] arg_cong [OF f, of outfit_nutility]
      arg_cong [OF f, of outfit_nweapon] arg_cong [OF f, of name]
    by simp_all
  then show ?thesis by (simp add: ship_parse_init_def)
qed

text \<open>
  C2. For a ship element with exactly one slots block: the three arrays hold, in
  document order, the slots parsed (each into a zeroed cell) from the structure, the
  utility and the weapon elements of the block, so their lengths and the three counters
  are the numbers of those elements; every other element of the block is warned about
  and is in no array.
\<close>

theorem ship_parse_slot_arrays:
  assumes "ship_parse e parent = Some (s, ws)"
    and "slot_nodes ''slots'' (nchildren parent) = [node]"
  shows "outfit_structure s =
           map (\<lambda>c. fst (ship_parseSlot e s zero_slot OUTFIT_SLOT_STRUCTURE c))
             (slot_nodes ''structure'' (nchildren node)) \<and>
         outfit_utility s =
           map (\<lambda>c. fst (ship_parseSlot e s zero_slot OUTFIT_SLOT_UTILITY c))
             (slot_nodes ''utility'' (nchildren node)) \<and>
         outfit_weapon s =
           map (\<lambda>c. fst (ship_parseSlot e s zero_slot OUTFIT_SLOT_WEAPON c))
             (slot_nodes ''weapon'' (nchildren node)) \<and>
         outfit_nstructure s = int (length (slot_nodes ''structure'' (nchildren node))) \<and>
         outfit_nutility s = int (length (slot_nodes ''utility'' (nchildren node))) \<and>
         outfit_nweapon s = int (length (slot_nodes ''weapon'' (nchildren node))) \<and>
         (\<forall>c \<in> set (nchildren node). ntype c = XML_NODE_START \<and> \<not> is_slot_node c \<longrightarrow>
            WARN_unknown_slot (name s) (nname c) \<in> set ws)"
proof -
  obtain temp1 where
    c: "ship_parse_class (ship_parse_init e parent) (nchildren parent) = Some temp1"
    and s: "s = ship_postprocess (fst (ship_parse_nodes e temp1 (nchildren parent)))"
    and ws: "ws = CALL_ss_statsInit #
       (if xmlr_attr parent ''name'' = None then [WARN_no_name] else []) @
       snd (ship_parse_nodes e temp1 (nchildren parent)) @ ship_validate s"
    using assms(1) by (rule ship_parse_Some)
  obtain pre post where sp: "nchildren parent = pre @ node # post"
    and npre: "\<forall>u \<in> set pre. \<not> xml_isNode u ''slots''"
    and n: "xml_isNode node ''slots''"
    and npost: "[] = filter (\<lambda>c. xml_isNode c ''slots'') post"
    using assms(2) unfolding slot_nodes_def filter_eq_Cons_iff by blast
  have npre': "\<not> list_ex (\<lambda>c. xml_isNode c ''slots'') pre"
    using npre by (simp add: list_ex_iff)
  have npost': "\<not> list_ex (\<lambda>c. xml_isNode c ''slots'') post"
    using npost by (auto simp: list_ex_iff filter_empty_conv dest: sym)
  define ta where "ta = fst (ship_parse_nodes e temp1 pre)"
  define tb where "tb = fst (ship_parse_slots e ta node)"
  define tc where "tc = fst (ship_parse_nodes e tb post)"
  have el: "ntype node = XML_NODE_START"
    using n by (simp add: xml_isNode_def)
  have run: "ship_parse_nodes e temp1 (nchildren parent) =
      (tc, snd (ship_parse_nodes e temp1 pre) @ snd (ship_parse_slots e ta node) @
           snd (ship_parse_nodes e tb post))"
    by (simp add: sp nodes_append el node_slots [OF n] split_def Let_def ta_def tb_def tc_def)
  have z: "outfit_nstructure ta = 0" "outfit_nutility ta = 0" "outfit_nweapon ta = 0"
    using class_init_outfits [OF c] nodes_outfits [OF npre', of temp1 e]
    by (simp_all add: ta_def same_outfits_def)
  have ida: "name ta = name s" "class' ta = class' s"
    using nodes_ident [of temp1 e "nchildren parent"] nodes_ident [of temp1 e pre]
      postprocess_frame [of "fst (ship_parse_nodes e temp1 (nchildren parent))"]
    by (simp_all add: s ta_def same_ident_def)
  have cong: "ship_parseSlot e ta = ship_parseSlot e s"
    using ida by (intro parseSlot_cong) simp_all
  have blk: "ship_parse_slots e ta node =
     (ta\<lparr> outfit_nstructure := int (length (slot_nodes ''structure'' (nchildren node))),
          outfit_nutility := int (length (slot_nodes ''utility'' (nchildren node))),
          outfit_nweapon := int (length (slot_nodes ''weapon'' (nchildren node))),
          outfit_structure :=
            map (\<lambda>c. fst (ship_parseSlot e s zero_slot OUTFIT_SLOT_STRUCTURE c))
              (slot_nodes ''structure'' (nchildren node)),
          outfit_utility :=
            map (\<lambda>c. fst (ship_parseSlot e s zero_slot OUTFIT_SLOT_UTILITY c))
              (slot_nodes ''utility'' (nchildren node)),
          outfit_weapon :=
            map (\<lambda>c. fst (ship_parseSlot e s zero_slot OUTFIT_SLOT_WEAPON c))
              (slot_nodes ''weapon'' (nchildren node)) \<rparr>,
      map (\<lambda>c. WARN_unknown_slot (name s) (nname c))
        (filter (\<lambda>c. ntype c = XML_NODE_START \<and> \<not> is_slot_node c) (nchildren node)) @
      concat (map (\<lambda>c. snd (ship_parseSlot e s zero_slot (slot_type_of c) c))
        (filter is_slot_node (nchildren node))))"
    using slots_block_result [of ta e node] z by (simp add: cong ida)
  have keep: "same_outfits tb s"
    using nodes_outfits [OF npost', of tb e] postprocess_frame [of tc] run
    by (simp add: s tc_def same_outfits_def)
  have arrays: "outfit_structure s =
           map (\<lambda>c. fst (ship_parseSlot e s zero_slot OUTFIT_SLOT_STRUCTURE c))
             (slot_nodes ''structure'' (nchildren node))"
    "outfit_utility s =
           map (\<lambda>c. fst (ship_parseSlot e s zero_slot OUTFIT_SLOT_UTILITY c))
             (slot_nodes ''utility'' (nchildren node))"
    "outfit_weapon s =
           map (\<lambda>c. fst (ship_parseSlot e s zero_slot OUTFIT_SLOT_WEAPON c))
             (slot_nodes ''weapon'' (nchildren node))"
    "outfit_nstructure s = int (length (slot_nodes ''structure'' (nchildren node)))"
    "outfit_nutility s = int (length (slot_nodes ''utility'' (nchildren node)))"
    "outfit_nweapon s = int (length (slot_nodes ''weapon'' (nchildren node)))"
    using keep by (simp_all add: same_outfits_def tb_def blk)
  have warned: "\<forall>c \<in> set (nchildren node). ntype c = XML_NODE_START \<and> \<not> is_slot_node c \<longrightarrow>
            WARN_unknown_slot (name s) (nname c) \<in> set ws"
    by (auto simp: ws run blk)
  show ?thesis using arrays warned by blast
qed

lemma parseSlot_size:
  "size' (slot (fst (ship_parseSlot e t s0 ty c))) =
     (case xmlr_attr c ''size'' of
        Some buf \<Rightarrow> outfit_toSlotSize e buf
      | None \<Rightarrow>
          if class' t \<in> {SHIP_CLASS_BULK_CARRIER, SHIP_CLASS_CRUISER, SHIP_CLASS_CARRIER,
                          SHIP_CLASS_MOTHERSHIP}
          then OUTFIT_SLOT_SIZE_HEAVY
          else if class' t \<in> {SHIP_CLASS_CRUISE_SHIP, SHIP_CLASS_FREIGHTER,
                          SHIP_CLASS_DESTROYER, SHIP_CLASS_CORVETTE, SHIP_CLASS_HEAVY_DRONE,
                          SHIP_CLASS_ARMOURED_TRANSPORT}
          then OUTFIT_SLOT_SIZE_MEDIUM
          else OUTFIT_SLOT_SIZE_LIGHT)"
  by (cases "xmlr_attr c ''size''") (simp_all add: ship_parseSlot_def Let_def split_def)

lemma parseSlot_mount_x:
  "mount_x (mount (fst (ship_parseSlot e t s0 OUTFIT_SLOT_WEAPON c))) =
     (case xmlr_attr c ''x'' of None \<Rightarrow> mount_x (mount s0) | Some buf \<Rightarrow> atof e buf)"
  by (cases "xmlr_attr c ''x''"; cases "xmlr_attr c ''y''"; cases "xmlr_attr c ''h''")
     (simp_all add: ship_parseSlot_def Let_def split_def)

lemma ship_parse_None_iff: "ship_parse e parent = None \<longleftrightarrow> empty_class parent"
  using class_None_iff [of "ship_parse_init e parent" "nchildren parent"]
  by (cases "ship_parse_class (ship_parse_init e parent) (nchildren parent)")
     (simp_all add: ship_parse_def empty_class_def Let_def split_def)

lemma sample_slots_nodes:
  "slot_nodes ''structure'' (nchildren sample_slots) =
     [XmlNode 1 ''structure'' [(''size'', ''Heavy'')] None [], XmlNode 1 ''structure'' [] None []]"
  "slot_nodes ''utility'' (nchildren sample_slots) =
     [XmlNode 1 ''utility'' [(''prop'', ''systems'')] None []]"
  "slot_nodes ''weapon'' (nchildren sample_slots) =
     [XmlNode 1 ''weapon'' [(''x'', ''1''), (''y'', ''2''), (''h'', ''3'')] None [],
      XmlNode 1 ''weapon'' [(''x'', ''4''), (''y'', ''5''), (''h'', ''6'')] None [],
      XmlNode 1 ''weapon'' [(''x'', ''7''), (''y'', ''8''), (''h'', ''9'')] None []]"
  by (simp_all add: slot_nodes_def sample_slots_def xml_text_def xml_isNode_def
      XML_NODE_START_def)

lemma sample_slots_parse:
  "ship_parse sample_env sample_ship_slots \<noteq> None"
  by (simp add: ship_parse_None_iff empty_class_def sample_ship_slots_def sample_slots_def
      sample_stats_def xml_elem_def xml_text_def xml_isNode_def xml_get_def)

lemma ship_parse_name:
  assumes "ship_parse e parent = Some (s, ws)"
  shows "name s = xmlr_attr parent ''name''"
proof -
  obtain temp1 where
    c: "ship_parse_class (ship_parse_init e parent) (nchildren parent) = Some temp1"
    and s: "s = ship_postprocess (fst (ship_parse_nodes e temp1 (nchildren parent)))"
    using assms by (rule ship_parse_Some)
  show ?thesis
    using class_init_outfits [OF c] nodes_ident [of temp1 e "nchildren parent"]
      postprocess_frame [of "fst (ship_parse_nodes e temp1 (nchildren parent))"]
    by (simp add: s same_ident_def)
qed

lemma class_single:
  assumes "ship_parse_class t cs = Some t'"
    and "slot_nodes ''class'' cs = [c]"
  shows "class' t' = ship_classFromString (the (xml_get c))"
  using assms
proof (induction cs arbitrary: t)
  case Nil
  then show ?case by (simp add: slot_nodes_def)
next
  case (Cons a cs)
  show ?case
  proof (cases "xml_isNode a ''class''")
    case True
    then have ac: "a = c" and nc: "slot_nodes ''class'' cs = []"
      using Cons.prems(2) by (simp_all add: slot_nodes_def)
    obtain str where g: "xml_get a = Some str"
      and r: "ship_parse_class (t\<lparr>class' := ship_classFromString str\<rparr>) cs = Some t'"
      using Cons.prems(1) True by (auto simp: xml_isNode_def split: option.splits)
    have "\<forall>x \<in> set cs. \<not> xml_isNode x ''class''"
      using nc by (simp add: slot_nodes_def filter_empty_conv)
    then have "ship_parse_class (t\<lparr>class' := ship_classFromString str\<rparr>) cs =
        Some (t\<lparr>class' := ship_classFromString str\<rparr>)"
      by (induction cs) (auto simp: xml_isNode_def)
    then show ?thesis using r g ac by auto
  next
    case False
    then have "ship_parse_class t cs = Some t'" "slot_nodes ''class'' cs = [c]"
      using Cons.prems by (auto simp: xml_isNode_def slot_nodes_def split: if_splits)
    then show ?thesis by (rule Cons.IH)
  qed
qed

lemma ship_parse_class_of:
  assumes "ship_parse e parent = Some (s, ws)"
    and "slot_nodes ''class'' (nchildren parent) = [c]"
  shows "class' s = ship_classFromString (the (xml_get c))"
proof -
  obtain temp1 where
    c: "ship_parse_class (ship_parse_init e parent) (nchildren parent) = Some temp1"
    and s: "s = ship_postprocess (fst (ship_parse_nodes e temp1 (nchildren parent)))"
    using assms(1) by (rule ship_parse_Some)
  show ?thesis
    using class_single [OF c assms(2)] nodes_ident [of temp1 e "nchildren parent"]
      postprocess_frame [of "fst (ship_parse_nodes e temp1 (nchildren parent))"]
    by (simp add: s same_ident_def)
qed

theorem ship_parse_slot_arrays_witness:
  "slot_nodes ''slots'' (nchildren sample_ship_slots) = [sample_slots] \<and>
   (case ship_parse sample_env sample_ship_slots of
      None \<Rightarrow> False
    | Some (s, ws) \<Rightarrow>
        length (outfit_structure s) = 2 \<and> length (outfit_utility s) = 1 \<and>
        length (outfit_weapon s) = 3 \<and>
        map (\<lambda>c. size' (slot c)) (outfit_structure s) =
          [OUTFIT_SLOT_SIZE_HEAVY, OUTFIT_SLOT_SIZE_MEDIUM] \<and>
        map (\<lambda>c. mount_x (mount c)) (outfit_weapon s) = [1, 4, 7] \<and>
        WARN_unknown_slot (Some ''Pacifier'') ''turret'' \<in> set ws)"
proof -
  have b: "slot_nodes ''slots'' (nchildren sample_ship_slots) = [sample_slots]"
    by (simp add: slot_nodes_def sample_ship_slots_def sample_slots_def sample_stats_def
        xml_elem_def xml_text_def xml_isNode_def XML_NODE_START_def)
  have cl: "slot_nodes ''class'' (nchildren sample_ship_slots) = [xml_elem ''class'' ''Destroyer'']"
    by (simp add: slot_nodes_def sample_ship_slots_def sample_slots_def sample_stats_def
        xml_elem_def xml_text_def xml_isNode_def XML_NODE_START_def)
  obtain s ws where p: "ship_parse sample_env sample_ship_slots = Some (s, ws)"
    using sample_slots_parse by fastforce
  have i: "class' s = SHIP_CLASS_DESTROYER" "name s = Some ''Pacifier''"
    using ship_parse_class_of [OF p cl] ship_parse_name [OF p]
    by (simp_all add: xml_elem_def xml_text_def xml_get_def ship_classFromString_def
        sample_ship_slots_def xmlr_attr_def)
  have t: "XmlNode 1 ''turret'' [] None [] \<in> set (nchildren sample_slots)"
    by (simp add: sample_slots_def)
  note r = ship_parse_slot_arrays [OF p b]
  have w: "WARN_unknown_slot (Some ''Pacifier'') ''turret'' \<in> set ws"
    using r t i by (auto simp: is_slot_node_def xml_isNode_def XML_NODE_START_def)
  have "length (outfit_structure s) = 2" "length (outfit_utility s) = 1"
    "length (outfit_weapon s) = 3"
    "map (\<lambda>c. size' (slot c)) (outfit_structure s) =
          [OUTFIT_SLOT_SIZE_HEAVY, OUTFIT_SLOT_SIZE_MEDIUM]"
    "map (\<lambda>c. mount_x (mount c)) (outfit_weapon s) = [1, 4, 7]"
    using r i
    by (simp_all add: sample_slots_nodes parseSlot_size parseSlot_mount_x xmlr_attr_def
        sample_env_def dec_def)
  then show ?thesis using b p w by simp
qed

text \<open>
  The counters are not reset between slots blocks. In a ship with two blocks of one
  structure element each, the second block allocates two cells: the array has length
  2, its first cell is the slot of the second block and its second cell is zeroed.
\<close>

theorem ship_parse_slot_arrays_counterexample:
  "slot_nodes ''slots'' (nchildren sample_ship_two_blocks) =
     [sample_block_heavy, sample_block_light] \<and>
   length (slot_nodes ''structure'' (nchildren sample_block_light)) = 1 \<and>
   (case ship_parse sample_env sample_ship_two_blocks of
      None \<Rightarrow> False
    | Some (s, ws) \<Rightarrow>
        outfit_nstructure s = 2 \<and> length (outfit_structure s) = 2 \<and>
        size' (slot (outfit_structure s ! 0)) = OUTFIT_SLOT_SIZE_LIGHT \<and>
        outfit_structure s ! 1 = zero_slot)"
proof -
  let ?e = sample_env
  have blocks: "slot_nodes ''slots'' (nchildren sample_ship_two_blocks) =
     [sample_block_heavy, sample_block_light]"
    and ch: "nchildren sample_ship_two_blocks = [sample_block_heavy, sample_block_light]"
    and el: "xml_isNode sample_block_heavy ''slots''" "xml_isNode sample_block_light ''slots''"
    by (simp_all add: slot_nodes_def sample_ship_two_blocks_def sample_block_heavy_def
        sample_block_light_def xml_isNode_def XML_NODE_START_def)
  have na: "slot_nodes ''structure'' (nchildren sample_block_heavy) =
        [XmlNode 1 ''structure'' [(''size'', ''Heavy'')] None []]"
      "slot_nodes ''utility'' (nchildren sample_block_heavy) = []"
      "slot_nodes ''weapon'' (nchildren sample_block_heavy) = []"
    and nb: "slot_nodes ''structure'' (nchildren sample_block_light) =
        [XmlNode 1 ''structure'' [(''size'', ''Light'')] None []]"
    by (simp_all add: slot_nodes_def sample_block_heavy_def sample_block_light_def
        xml_isNode_def XML_NODE_START_def)
  have "ship_parse ?e sample_ship_two_blocks \<noteq> None"
    by (simp add: ship_parse_None_iff empty_class_def ch sample_block_heavy_def
        sample_block_light_def xml_isNode_def)
  then obtain s ws where p: "ship_parse ?e sample_ship_two_blocks = Some (s, ws)"
    by fastforce
  obtain temp1 where
    c: "ship_parse_class (ship_parse_init ?e sample_ship_two_blocks)
          (nchildren sample_ship_two_blocks) = Some temp1"
    and s: "s = ship_postprocess
          (fst (ship_parse_nodes ?e temp1 (nchildren sample_ship_two_blocks)))"
    using p by (rule ship_parse_Some)
  define ta where "ta = fst (ship_parse_slots ?e temp1 sample_block_heavy)"
  define tb where "tb = fst (ship_parse_slots ?e ta sample_block_light)"
  have run: "fst (ship_parse_nodes ?e temp1 (nchildren sample_ship_two_blocks)) = tb"
    using el by (simp add: ch node_slots split_def Let_def ta_def tb_def xml_isNode_def)
  have z: "outfit_nstructure temp1 = 0" "outfit_nutility temp1 = 0" "outfit_nweapon temp1 = 0"
    using class_init_outfits [OF c] by simp_all
  have ca: "outfit_nstructure ta = 1" "outfit_nutility ta = 0" "outfit_nweapon ta = 0"
    using slots_block_result [of temp1 ?e sample_block_heavy] z by (simp_all add: ta_def na)
  have rb: "outfit_nstructure tb = 2"
    "outfit_structure tb =
       [fst (ship_parseSlot ?e ta zero_slot OUTFIT_SLOT_STRUCTURE
          (XmlNode 1 ''structure'' [(''size'', ''Light'')] None [])), zero_slot]"
    using slots_block_result [of ta ?e sample_block_light] ca by (simp_all add: tb_def nb)
  have keep: "outfit_nstructure s = outfit_nstructure tb" "outfit_structure s = outfit_structure tb"
    using postprocess_frame [of tb] by (simp_all add: s run same_outfits_def)
  have "outfit_nstructure s = 2" "length (outfit_structure s) = 2"
    "size' (slot (outfit_structure s ! 0)) = OUTFIT_SLOT_SIZE_LIGHT"
    "outfit_structure s ! 1 = zero_slot"
    by (simp_all add: keep rb parseSlot_size xmlr_attr_def sample_env_def)
  then show ?thesis using blocks nb p by simp
qed

section \<open>The stats block\<close>

lemma stats_list_result:
  "ship_parse_stats_list e t cs =
     (t\<lparr>stats := rev (recognized_stats e cs) @ stats t\<rparr>,
      map (\<lambda>c. WARN_unknown_stat (name t) (nname c))
        (filter (\<lambda>c. ntype c = XML_NODE_START \<and> ss_listFromXML e c = None) cs))"
proof (induction cs arbitrary: t)
  case Nil
  show ?case by (simp add: recognized_stats_def)
next
  case (Cons c cs)
  show ?case
    by (cases "ss_listFromXML e c")
       (simp_all add: Cons.IH recognized_stats_def Let_def)
qed

text \<open>
  C4. For a stats block: every element that \<open>ss_listFromXML\<close> recognizes is put in
  front of the ship's list, so the list after the loop is the recognized elements in
  reverse document order, followed by what the list held before; the other elements
  are warned about. After the loop the list is compiled into the array, always and
  once. It is rendered into the description, once, only when it is not empty; an empty
  list leaves the description as it was. The description is kept only when the
  rendering returns a positive count.
\<close>

theorem ship_parse_stats_result:
  "let final = rev (recognized_stats e (nchildren node)) @ stats temp;
       r = ship_parse_stats e temp node
   in stats (fst r) = final \<and>
      stats_array (fst r) = ss_statsModFromList e (ss_statsInit e) final \<and>
      desc_stats (fst r) =
        (if final = [] then desc_stats temp
         else if fst (ss_statsListDesc e final STATS_DESC_MAX) \<le> 0 then None
         else Some (snd (ss_statsListDesc e final STATS_DESC_MAX))) \<and>
      snd r =
        map (\<lambda>c. WARN_unknown_stat (name temp) (nname c))
          (filter (\<lambda>c. ntype c = XML_NODE_START \<and> ss_listFromXML e c = None)
             (nchildren node)) @
        [CALL_ss_statsInit, CALL_ss_statsModFromList final] @
        (if final = [] then [] else [CALL_ss_statsListDesc final STATS_DESC_MAX])"
  by (simp add: ship_parse_stats_def stats_list_result Let_def split_def)

theorem ship_parse_stats_result_witness:
  "stats (fst (ship_parse_stats sample_env sample_cruiser sample_stats)) =
     [(''jump_delay'', 2), (''cargo_mod'', 10)] \<and>
   snd (ship_parse_stats sample_env sample_cruiser sample_stats) =
     [WARN_unknown_stat (Some ''Kestrel'') ''bogus'', CALL_ss_statsInit,
      CALL_ss_statsModFromList [(''jump_delay'', 2), (''cargo_mod'', 10)],
      CALL_ss_statsListDesc [(''jump_delay'', 2), (''cargo_mod'', 10)] 128] \<and>
   desc_stats (fst (ship_parse_stats sample_env sample_cruiser sample_stats)) =
     Some ''jump_delaycargo_mod''"
proof -
  have r: "recognized_stats sample_env (nchildren sample_stats) =
      [(''cargo_mod'', 10), (''jump_delay'', 2)]"
    by (simp add: recognized_stats_def sample_stats_def xml_elem_def xml_text_def
        XML_NODE_START_def sample_env_def xml_get_def dec_def)
  have u: "filter (\<lambda>c. ntype c = XML_NODE_START \<and> ss_listFromXML sample_env c = None)
             (nchildren sample_stats) = [xml_elem ''bogus'' ''1'']"
    by (simp add: sample_stats_def xml_elem_def xml_text_def XML_NODE_START_def sample_env_def)
  have t: "stats sample_cruiser = []" "name sample_cruiser = Some ''Kestrel''"
    by (simp_all add: sample_cruiser_def ship_parse_init_def xmlr_attr_def)
  have d: "ss_statsListDesc sample_env [(''jump_delay'', 2), (''cargo_mod'', 10)] 128
      = (2, ''jump_delaycargo_mod'')"
    by (simp add: sample_env_def)
  show ?thesis
    using ship_parse_stats_result [of sample_env sample_stats sample_cruiser]
    by (simp add: Let_def r u t d xml_elem_def STATS_DESC_MAX_def)
qed

text \<open>
  A stats block with no recognized element, in a ship whose list is empty: the array
  is compiled, and \<open>ss_statsListDesc\<close> is not called.
\<close>

theorem ship_parse_stats_result_counterexample:
  "snd (ship_parse_stats sample_env sample_cruiser sample_stats_empty) =
     [WARN_unknown_stat (Some ''Kestrel'') ''bogus'', CALL_ss_statsInit,
      CALL_ss_statsModFromList []] \<and>
   desc_stats (fst (ship_parse_stats sample_env sample_cruiser sample_stats_empty)) = None"
proof -
  have r: "recognized_stats sample_env (nchildren sample_stats_empty) = []"
    by (simp add: recognized_stats_def sample_stats_empty_def xml_elem_def xml_text_def
        XML_NODE_START_def sample_env_def)
  have u: "filter (\<lambda>c. ntype c = XML_NODE_START \<and> ss_listFromXML sample_env c = None)
             (nchildren sample_stats_empty) = [xml_elem ''bogus'' ''1'']"
    by (simp add: sample_stats_empty_def xml_elem_def xml_text_def XML_NODE_START_def
        sample_env_def)
  have t: "stats sample_cruiser = []" "name sample_cruiser = Some ''Kestrel''"
    "desc_stats sample_cruiser = None"
    by (simp_all add: sample_cruiser_def ship_parse_init_def xmlr_attr_def)
  show ?thesis
    by (simp add: ship_parse_stats_def stats_list_result Let_def split_def r u t xml_elem_def)
qed

section \<open>Loading the catalog: properties\<close>









end
